theory Spec2Isabelle
  imports Complex_Main
begin

section \<open>The extreme learning machine of \<^verbatim>\<open>elm/elm-tutorial.ipynb\<close>\<close>

text \<open>
  The notebook is a sequence of module-level statements and three functions
  (\<^verbatim>\<open>relu\<close>, \<^verbatim>\<open>hidden_nodes\<close>, \<^verbatim>\<open>predict\<close>) over numpy arrays. Arrays are Python
  objects: a variable holds a reference, and \<^verbatim>\<open>np.maximum(x, 0, x)\<close> writes into the
  object its third argument refers to. The model therefore keeps every array in a
  store indexed by addresses and threads the store through each call.

  The entries of an array are float64 values in the program. In the store model
  they are real numbers: rounding, infinities and NaN are left out there, which
  changes the values of entries but not which arrays are read, written, allocated
  or returned, nor their shapes. The projection is modelled a second time on
  float64 values, without the store, for the statement about the sign of its
  entries, which overflow and NaN decide.
\<close>

subsection \<open>Arrays\<close>

text \<open>
  The program only builds arrays of one dimension (\<^verbatim>\<open>biases\<close>) and of two dimensions
  (everything else). \<open>Arr1 xs\<close> has shape \<open>(length xs,)\<close>; \<open>Arr2 c rs\<close> is a list of
  rows and has shape \<open>(length rs, c)\<close>. The column count is stored because an array
  with no rows still has one.
\<close>

datatype ndarray = Arr1 "real list" | Arr2 nat "real list list"

fun shape :: "ndarray \<Rightarrow> nat list" where
  "shape (Arr1 xs) = [length xs]"
| "shape (Arr2 c rs) = [length rs, c]"

fun wf_array :: "ndarray \<Rightarrow> bool" where
  "wf_array (Arr1 xs) = True"
| "wf_array (Arr2 c rs) = (\<forall>r \<in> set rs. length r = c)"

fun entries :: "ndarray \<Rightarrow> real list" where
  "entries (Arr1 xs) = xs"
| "entries (Arr2 c rs) = concat rs"

fun amap :: "(real \<Rightarrow> real) \<Rightarrow> ndarray \<Rightarrow> ndarray" where
  "amap f (Arr1 xs) = Arr1 (map f xs)"
| "amap f (Arr2 c rs) = Arr2 c (map (map f) rs)"

subsection \<open>Exceptions\<close>

text \<open>
  \<open>ValueError\<close> is what numpy raises when the shapes of the operands of \<^verbatim>\<open>np.dot\<close> are
  not aligned or two operands cannot be broadcast together; \<open>NameError\<close> is what
  Python raises when the global \<^verbatim>\<open>output_weights\<close> is read before it has been
  assigned; \<open>LinAlgError\<close> is what the decomposition inside \<^verbatim>\<open>pinv2\<close> raises when it
  does not converge; \<open>IndexError\<close> is what indexing an array with more indices than
  it has axes raises. \<open>NotModelled\<close> marks the operand ranks and output buffers that
  the program never produces and that the operations below do not describe.
\<close>

datatype error = ValueError | NameError | LinAlgError | IndexError | NotModelled

subsection \<open>The interpreter state\<close>

type_synonym addr = nat

text \<open>
  \<open>heap\<close> maps an address to the array stored there, \<open>nxt\<close> is the first address
  that has not been handed out. The remaining fields are the module-level names of
  the notebook; \<open>output_weights\<close> is \<open>None\<close> until the assignment in cell 9 has run.
\<close>

record pystate =
  heap :: "addr \<Rightarrow> ndarray"
  nxt :: addr
  input_weights :: addr
  biases :: addr
  output_weights :: "addr option"

type_synonym 'a py = "pystate \<Rightarrow> (error + 'a) \<times> pystate"

definition py_return :: "'a \<Rightarrow> 'a py" where
  "py_return v s = (Inr v, s)"

definition py_bind :: "'a py \<Rightarrow> ('a \<Rightarrow> 'b py) \<Rightarrow> 'b py" where
  "py_bind m f s = (case m s of (Inl e, s') \<Rightarrow> (Inl e, s') | (Inr v, s') \<Rightarrow> f v s')"

definition new_array :: "ndarray \<Rightarrow> addr py" where
  "new_array a s = (Inr (nxt s), s\<lparr>heap := (heap s)(nxt s := a), nxt := Suc (nxt s)\<rparr>)"

definition lift_result :: "error + ndarray \<Rightarrow> addr py" where
  "lift_result r s = (case r of Inl e \<Rightarrow> (Inl e, s) | Inr a \<Rightarrow> new_array a s)"

subsection \<open>The numpy operations the notebook calls\<close>

text \<open>
  \<^verbatim>\<open>np.dot(A, B)\<close> on two 2-D arrays is the matrix product; it raises ValueError
  unless the column count of \<open>A\<close> is the row count of \<open>B\<close>. The result is a new array.
\<close>

definition matmul :: "nat \<Rightarrow> real list list \<Rightarrow> real list list \<Rightarrow> real list list" where
  "matmul c A B = map (\<lambda>r. map (\<lambda>j. sum_list (map (\<lambda>(x, w). x * w ! j) (zip r B))) [0..<c]) A"

fun dot :: "ndarray \<Rightarrow> ndarray \<Rightarrow> error + ndarray" where
  "dot (Arr2 m A) (Arr2 c B) =
     (if m \<noteq> length B then Inl ValueError else Inr (Arr2 c (matmul c A B)))"
| "dot _ _ = Inl NotModelled"

definition np_dot :: "addr \<Rightarrow> addr \<Rightarrow> addr py" where
  "np_dot a b s = lift_result (dot (heap s a) (heap s b)) s"

text \<open>
  \<^verbatim>\<open>G + biases\<close> with \<open>G\<close> of shape \<open>(n, c)\<close> and \<open>biases\<close> of shape \<open>(k,)\<close> follows numpy's
  broadcasting: the last axes must be equal or one of them must be 1. The result is
  a new array.
\<close>

fun add :: "ndarray \<Rightarrow> ndarray \<Rightarrow> error + ndarray" where
  "add (Arr2 c G) (Arr1 b) =
     (if c = length b then Inr (Arr2 c (map (\<lambda>r. map (\<lambda>(x, y). x + y) (zip r b)) G))
      else if length b = 1 then Inr (Arr2 c (map (map (\<lambda>x. x + b ! 0)) G))
      else if c = 1 then Inr (Arr2 (length b) (map (\<lambda>r. map (\<lambda>y. r ! 0 + y) b) G))
      else Inl ValueError)"
| "add _ _ = Inl NotModelled"

definition np_add :: "addr \<Rightarrow> addr \<Rightarrow> addr py" where
  "np_add a b s = lift_result (add (heap s a) (heap s b)) s"

text \<open>
  \<^verbatim>\<open>np.maximum(x1, c, out)\<close> with a scalar \<open>c\<close>: the elementwise maximum of \<open>x1\<close> and
  \<open>c\<close> is stored into the array \<open>out\<close> refers to, and \<open>out\<close> is returned. Only an
  output buffer of the shape of \<open>x1\<close> is described.
\<close>

definition np_maximum :: "addr \<Rightarrow> real \<Rightarrow> addr \<Rightarrow> addr py" where
  "np_maximum x1 c out s =
     (let r = amap (\<lambda>v. max v c) (heap s x1) in
      if shape (heap s out) = shape r
      then (Inr out, s\<lparr>heap := (heap s)(out := r)\<rparr>)
      else (Inl NotModelled, s))"

subsection \<open>Cells 8 to 10: \<^verbatim>\<open>relu\<close>, \<^verbatim>\<open>hidden_nodes\<close>, \<^verbatim>\<open>output_weights\<close>, \<^verbatim>\<open>predict\<close>\<close>

text \<open>\<^verbatim>\<open>def relu(x): return np.maximum(x, 0, x)\<close>\<close>

definition relu :: "addr \<Rightarrow> addr py" where
  "relu x = np_maximum x 0 x"

text \<open>
  \<^verbatim>\<open>
  def hidden_nodes(X):
      G = np.dot(X, input_weights)
      G = G + biases
      H = relu(G)
      return H
  \<close>
\<close>

definition hidden_nodes :: "addr \<Rightarrow> addr py" where
  "hidden_nodes X =
     py_bind (\<lambda>s. np_dot X (input_weights s) s) (\<lambda>G.
     py_bind (\<lambda>s. np_add G (biases s) s) (\<lambda>G.
     py_bind (relu G) (\<lambda>H.
     py_return H)))"

text \<open>
  \<^verbatim>\<open>output_weights = np.dot(pinv2(hidden_nodes(X_train)), y_train)\<close>

  \<^verbatim>\<open>pinv2\<close> is scipy's routine and not part of the notebook: it is a parameter
  of the model, a function from the array it is given to a new array or an
  exception. It does not write to its argument.
\<close>

definition call_pinv2 :: "(ndarray \<Rightarrow> error + ndarray) \<Rightarrow> addr \<Rightarrow> addr py" where
  "call_pinv2 pinv2 H s = lift_result (pinv2 (heap s H)) s"

definition assign_output_weights :: "addr \<Rightarrow> unit py" where
  "assign_output_weights W s = (Inr (), s\<lparr>output_weights := Some W\<rparr>)"

definition solve :: "(ndarray \<Rightarrow> error + ndarray) \<Rightarrow> addr \<Rightarrow> addr \<Rightarrow> unit py" where
  "solve pinv2 H Y =
     py_bind (call_pinv2 pinv2 H) (\<lambda>P.
     py_bind (np_dot P Y) (\<lambda>W.
     assign_output_weights W))"

definition fit :: "(ndarray \<Rightarrow> error + ndarray) \<Rightarrow> addr \<Rightarrow> addr \<Rightarrow> unit py" where
  "fit pinv2 X_train y_train =
     py_bind (hidden_nodes X_train) (\<lambda>H. solve pinv2 H y_train)"

text \<open>
  \<^verbatim>\<open>
  def predict(X):
      out = hidden_nodes(X)
      out = np.dot(out, output_weights)
      return out
  \<close>
  Reading the global \<^verbatim>\<open>output_weights\<close> raises NameError while it is unassigned.
\<close>

definition read_output_weights :: "addr py" where
  "read_output_weights s =
     (case output_weights s of None \<Rightarrow> (Inl NameError, s) | Some W \<Rightarrow> (Inr W, s))"

definition predict :: "addr \<Rightarrow> addr py" where
  "predict X =
     py_bind (hidden_nodes X) (\<lambda>out.
     py_bind read_output_weights (\<lambda>W.
     py_bind (np_dot out W) (\<lambda>out.
     py_return out)))"

subsection \<open>Cell 7: drawing the input weights and the biases\<close>

text \<open>
  \<^verbatim>\<open>
  input_weights = np.random.normal(size=[input_size,hidden_size])
  biases = np.random.normal(size=[hidden_size])
  \<close>
  The random generator is a parameter: \<open>rnd k\<close> is its \<open>k\<close>-th draw. The first call
  takes \<open>input_size * hidden_size\<close> draws and fills the array row by row, the
  second call takes the next \<open>hidden_size\<close> draws. The arrays that exist already
  (the data) are the store \<open>h\<close> with first free address \<open>n\<close>.
\<close>

definition normal2 :: "(nat \<Rightarrow> real) \<Rightarrow> nat \<Rightarrow> nat \<Rightarrow> nat \<Rightarrow> ndarray" where
  "normal2 rnd k r c = Arr2 c (map (\<lambda>i. map (\<lambda>j. rnd (k + i * c + j)) [0..<c]) [0..<r])"

definition normal1 :: "(nat \<Rightarrow> real) \<Rightarrow> nat \<Rightarrow> nat \<Rightarrow> ndarray" where
  "normal1 rnd k c = Arr1 (map (\<lambda>j. rnd (k + j)) [0..<c])"

definition construct :: "(nat \<Rightarrow> real) \<Rightarrow> nat \<Rightarrow> nat \<Rightarrow> (addr \<Rightarrow> ndarray) \<Rightarrow> addr \<Rightarrow> pystate" where
  "construct rnd input_size hidden_size h n =
     \<lparr>heap = h(n := normal2 rnd 0 input_size hidden_size,
                Suc n := normal1 rnd (input_size * hidden_size) hidden_size),
      nxt = Suc (Suc n),
      input_weights = n,
      biases = Suc n,
      output_weights = None\<rparr>"

subsection \<open>Cell 3: scaling the features\<close>

text \<open>
  \<^verbatim>\<open>
  scaler = StandardScaler()
  X_train = scaler.fit_transform(train.values[:,1:])
  X_test = scaler.fit_transform(test.values[:,1:])
  \<close>
  \<^verbatim>\<open>StandardScaler\<close> is scikit-learn's: \<^verbatim>\<open>fit\<close> discards what the object had
  learnt, stores the mean of every column and its standard deviation (the square
  root of the population variance, a zero replaced by 1), \<^verbatim>\<open>transform\<close> subtracts
  the stored mean and divides by the stored deviation, and \<^verbatim>\<open>fit_transform(X)\<close> is
  \<^verbatim>\<open>fit(X).transform(X)\<close>. Both raise ValueError on an array that is not 2-D or has
  no row or no column, and \<^verbatim>\<open>transform\<close> raises NotFittedError, a ValueError, on an
  object that was never fitted. The state of the object is its stored statistics.
  \<^verbatim>\<open>values[:,1:]\<close> drops the first column of a 2-D array. The two lines that encode
  the labels stand between the two calls; they use neither the scaler nor the
  features and are left out.
\<close>

type_synonym scaler = "(real list \<times> real list) option"

definition features :: "ndarray \<Rightarrow> error + ndarray" where
  "features a =
     (case a of
        Arr2 c rs \<Rightarrow> Inr (Arr2 (c - 1) (map (drop 1) rs))
      | Arr1 xs \<Rightarrow> Inl IndexError)"

definition column :: "real list list \<Rightarrow> nat \<Rightarrow> real list" where
  "column rs j = map (\<lambda>r. r ! j) rs"

definition mean :: "real list \<Rightarrow> real" where
  "mean xs = sum_list xs / real (length xs)"

definition variance :: "real list \<Rightarrow> real" where
  "variance xs = sum_list (map (\<lambda>x. (x - mean xs)\<^sup>2) xs) / real (length xs)"

definition scale_of :: "real list \<Rightarrow> real" where
  "scale_of xs = (let sd = sqrt (variance xs) in if sd = 0 then 1 else sd)"

definition fit_stats :: "ndarray \<Rightarrow> error + (real list \<times> real list)" where
  "fit_stats a =
     (case a of
        Arr1 xs \<Rightarrow> Inl ValueError
      | Arr2 c rs \<Rightarrow>
          if rs = [] \<or> c = 0 then Inl ValueError
          else Inr (map (\<lambda>j. mean (column rs j)) [0..<c],
                    map (\<lambda>j. scale_of (column rs j)) [0..<c]))"

definition transform :: "scaler \<Rightarrow> ndarray \<Rightarrow> error + ndarray" where
  "transform sc a =
     (case sc of
        None \<Rightarrow> Inl ValueError
      | Some (mu, sd) \<Rightarrow>
          (case a of
             Arr1 xs \<Rightarrow> Inl ValueError
           | Arr2 c rs \<Rightarrow>
               if rs = [] \<or> c = 0 \<or> c \<noteq> length mu then Inl ValueError
               else Inr (Arr2 c (map (\<lambda>r. map (\<lambda>j. (r ! j - mu ! j) / sd ! j) [0..<c]) rs))))"

definition fit_transform :: "scaler \<Rightarrow> ndarray \<Rightarrow> error + (ndarray \<times> scaler)" where
  "fit_transform sc a =
     (case fit_stats a of
        Inl e \<Rightarrow> Inl e
      | Inr st \<Rightarrow> (case transform (Some st) a of Inl e \<Rightarrow> Inl e | Inr z \<Rightarrow> Inr (z, Some st)))"

definition scale_features :: "scaler \<Rightarrow> ndarray \<Rightarrow> ndarray \<Rightarrow> error + (ndarray \<times> ndarray \<times> scaler)" where
  "scale_features sc train test =
     (case features train of
        Inl e \<Rightarrow> Inl e
      | Inr ftr \<Rightarrow>
          (case fit_transform sc ftr of
             Inl e \<Rightarrow> Inl e
           | Inr (X_train, sc1) \<Rightarrow>
               (case features test of
                  Inl e \<Rightarrow> Inl e
                | Inr fte \<Rightarrow>
                    (case fit_transform sc1 fte of
                       Inl e \<Rightarrow> Inl e
                     | Inr (X_test, sc2) \<Rightarrow> Inr (X_train, X_test, sc2)))))"

subsection \<open>What the specification says the operations compute\<close>

text \<open>
  The product \<open>A\<cdot>B\<close> of an array with \<open>m\<close> columns and an array with \<open>m\<close> rows and
  \<open>c\<close> columns, entry by entry, and the projection \<open>max(X\<cdot>W_in + b, 0)\<close> of the
  specification, with \<open>m\<close> features and \<open>h\<close> hidden nodes.
\<close>

definition spec_dot :: "nat \<Rightarrow> nat \<Rightarrow> real list list \<Rightarrow> real list list \<Rightarrow> real list list" where
  "spec_dot m c A B = map (\<lambda>i. map (\<lambda>j. \<Sum>k<m. A ! i ! k * B ! k ! j) [0..<c]) [0..<length A]"

definition spec_project :: "nat \<Rightarrow> nat \<Rightarrow> real list list \<Rightarrow> real list list \<Rightarrow> real list \<Rightarrow> real list list" where
  "spec_project m h X W b =
     map (\<lambda>i. map (\<lambda>j. max ((\<Sum>k<m. X ! i ! k * W ! k ! j) + b ! j) 0) [0..<h]) [0..<length X]"

text \<open>
  A split normalised with its own statistics: every entry has the mean of its column
  subtracted and is divided by the standard deviation of its column.
\<close>

definition standardized :: "nat \<Rightarrow> real list list \<Rightarrow> real list list" where
  "standardized c rs =
     map (\<lambda>r. map (\<lambda>j. (r ! j - mean (column rs j)) / scale_of (column rs j)) [0..<c]) rs"

subsection \<open>Invariant, frame and the value of a call\<close>

text \<open>
  A model with \<open>m\<close> features and \<open>h\<close> hidden nodes: the two parameter arrays exist,
  \<^verbatim>\<open>input_weights\<close> has shape \<open>(m, h)\<close> and \<^verbatim>\<open>biases\<close> has shape \<open>(h,)\<close>, and
  \<^verbatim>\<open>output_weights\<close>, once assigned, refers to an existing array.
\<close>

definition model_inv :: "nat \<Rightarrow> nat \<Rightarrow> pystate \<Rightarrow> bool" where
  "model_inv m h s \<longleftrightarrow>
     input_weights s < nxt s \<and> biases s < nxt s \<and>
     shape (heap s (input_weights s)) = [m, h] \<and> wf_array (heap s (input_weights s)) \<and>
     shape (heap s (biases s)) = [h] \<and>
     (case output_weights s of None \<Rightarrow> True | Some W \<Rightarrow> W < nxt s)"

text \<open>
  \<open>frame s s'\<close>: going from \<open>s\<close> to \<open>s'\<close>, no array that existed in \<open>s\<close> has changed and
  the names \<^verbatim>\<open>input_weights\<close> and \<^verbatim>\<open>biases\<close> refer to the same objects.
\<close>

definition frame :: "pystate \<Rightarrow> pystate \<Rightarrow> bool" where
  "frame s s' \<longleftrightarrow>
     nxt s \<le> nxt s' \<and> (\<forall>a < nxt s. heap s' a = heap s a) \<and>
     input_weights s' = input_weights s \<and> biases s' = biases s"

text \<open>The outcome of a call that returns an array: the exception, or the array returned.\<close>

definition result_value :: "(error + addr) \<times> pystate \<Rightarrow> error + ndarray" where
  "result_value r = (case r of (Inl e, s') \<Rightarrow> Inl e | (Inr a, s') \<Rightarrow> Inr (heap s' a))"

text \<open>
  The arrays that \<^verbatim>\<open>hidden_nodes\<close>, the assignment to \<^verbatim>\<open>output_weights\<close> and \<^verbatim>\<open>predict\<close>
  compute, as functions of the arrays they read.
\<close>

definition hidden_nodes_value :: "ndarray \<Rightarrow> ndarray \<Rightarrow> ndarray \<Rightarrow> error + ndarray" where
  "hidden_nodes_value x w b =
     (case dot x w of
        Inl e \<Rightarrow> Inl e
      | Inr g \<Rightarrow> (case add g b of Inl e \<Rightarrow> Inl e | Inr g' \<Rightarrow> Inr (amap (\<lambda>v. max v 0) g')))"

definition solve_value :: "(ndarray \<Rightarrow> error + ndarray) \<Rightarrow> ndarray \<Rightarrow> ndarray \<Rightarrow> error + ndarray" where
  "solve_value pinv2 hv y = (case pinv2 hv of Inl e \<Rightarrow> Inl e | Inr p \<Rightarrow> dot p y)"

definition fit_value ::
  "(ndarray \<Rightarrow> error + ndarray) \<Rightarrow> ndarray \<Rightarrow> ndarray \<Rightarrow> ndarray \<Rightarrow> ndarray \<Rightarrow> error + ndarray" where
  "fit_value pinv2 x y w b =
     (case hidden_nodes_value x w b of Inl e \<Rightarrow> Inl e | Inr hv \<Rightarrow> solve_value pinv2 hv y)"

definition predict_value :: "ndarray \<Rightarrow> ndarray \<Rightarrow> ndarray \<Rightarrow> ndarray option \<Rightarrow> error + ndarray" where
  "predict_value x w b wo =
     (case hidden_nodes_value x w b of
        Inl e \<Rightarrow> Inl e
      | Inr hv \<Rightarrow> (case wo of None \<Rightarrow> Inl NameError | Some wv \<Rightarrow> dot hv wv))"

subsection \<open>A small model for the examples\<close>

text \<open>
  The pseudo-inverse of a matrix with a single column \<open>v\<close> is the row \<open>v\<^sup>T / (v\<^sup>T v)\<close>,
  and the zero row when \<open>v\<close> is zero. It stands for \<^verbatim>\<open>pinv2\<close> in the examples, which
  have one hidden node.
\<close>

definition pinv_column :: "ndarray \<Rightarrow> error + ndarray" where
  "pinv_column a =
     (case a of
        Arr2 c rs \<Rightarrow>
          if c = 1 then
            (let q = sum_list (map (\<lambda>r. (r ! 0)\<^sup>2) rs)
             in Inr (Arr2 (length rs) [map (\<lambda>r. if q = 0 then 0 else r ! 0 / q) rs]))
          else Inl NotModelled
      | Arr1 xs \<Rightarrow> Inl NotModelled)"

text \<open>Two small tables for cell 3: the first column is the label, the others are features.\<close>

definition demo_train :: ndarray where
  "demo_train = Arr2 3 [[7, 0, 1], [3, 4, 1]]"

definition demo_test :: ndarray where
  "demo_test = Arr2 3 [[1, 10, 5], [0, 12, 7]]"

text \<open>
  Two features, one hidden node, two classes. Addresses 0 and 1 hold the two
  tables, addresses 2 to 5 hold the data of the model: the training features and
  labels, a test input with two columns and an input with three columns. The draws
  are \<open>1, -1\<close> for the weights and \<open>1/2\<close> for the bias.
\<close>

definition demo_data :: "addr \<Rightarrow> ndarray" where
  "demo_data =
     (\<lambda>a. Arr1 [])
       (0 := demo_train,
        1 := demo_test,
        2 := Arr2 2 [[1, 0], [0, 1]],
        3 := Arr2 2 [[1, 0], [0, 1]],
        4 := Arr2 2 [[2, 0]],
        5 := Arr2 3 [[1, 2, 3]])"

definition demo_rnd :: "nat \<Rightarrow> real" where
  "demo_rnd k = (if k = 0 then 1 else if k = 1 then - 1 else 1 / 2)"

definition demo :: pystate where
  "demo = construct demo_rnd 2 1 demo_data 6"

text \<open>The example model after \<^verbatim>\<open>hidden_nodes(X_train)\<close> has run, and after cell 9 has run.\<close>

definition demo_hidden :: pystate where
  "demo_hidden = snd (hidden_nodes 2 demo)"

definition demo_fitted :: pystate where
  "demo_fitted = snd (fit pinv_column 2 3 demo)"

text \<open>
  The example model fitted on other data first (the array at address 4 as features
  and as labels), and then fitted again on the training data.
\<close>

definition demo_first :: pystate where
  "demo_first = snd (fit pinv_column 4 4 demo)"

definition demo_refit :: pystate where
  "demo_refit = snd (fit pinv_column 2 3 demo_first)"

subsection \<open>What a call may not touch\<close>

text \<open>
  \<open>same_parameters s s'\<close>: \<^verbatim>\<open>input_weights\<close> and \<^verbatim>\<open>biases\<close> name the same arrays in \<open>s'\<close>
  as in \<open>s\<close>, with the same contents. \<open>same_model s s'\<close>: in addition
  \<^verbatim>\<open>output_weights\<close> is unassigned in both, or names the same array with the same
  contents.
\<close>

definition same_parameters :: "pystate \<Rightarrow> pystate \<Rightarrow> bool" where
  "same_parameters s s' \<longleftrightarrow>
     input_weights s' = input_weights s \<and> biases s' = biases s \<and>
     heap s' (input_weights s) = heap s (input_weights s) \<and>
     heap s' (biases s) = heap s (biases s)"

definition same_model :: "pystate \<Rightarrow> pystate \<Rightarrow> bool" where
  "same_model s s' \<longleftrightarrow>
     same_parameters s s' \<and> output_weights s' = output_weights s \<and>
     (case output_weights s of None \<Rightarrow> True | Some W \<Rightarrow> heap s' W = heap s W)"

subsection \<open>The projection on float64 values\<close>

text \<open>
  A float64 value is a finite number, an infinity or NaN. The sign of a zero is
  not kept: \<open>-0.0\<close> and \<open>0.0\<close> compare equal and both count as not negative.
\<close>

datatype f64 = Fin real | PInf | NInf | NaN

text \<open>
  Rounding to the nearest float64, ties to the value with an even significand:
  \<open>quantum x\<close> is the distance between neighbouring float64 values at the
  magnitude of \<open>x\<close> (53 bits of significand, exponents from -1022), and \<open>round64 x\<close>
  is the multiple of it nearest to \<open>x\<close>. \<open>fl x\<close> is the float64 result of an operation
  whose exact result is \<open>x\<close>: from \<open>2^1024 - 2^970\<close> on, half a quantum above the
  largest finite float64, the result overflows to an infinity.
\<close>

definition quantum :: "real \<Rightarrow> real" where
  "quantum x = 2 powr (of_int (max \<lfloor>log 2 \<bar>x\<bar>\<rfloor> (- 1022)) - 52)"

definition nearest_even :: "real \<Rightarrow> int" where
  "nearest_even y =
     (let f = \<lfloor>y\<rfloor> in
      if y - of_int f < 1 / 2 then f
      else if 1 / 2 < y - of_int f then f + 1
      else if even f then f else f + 1)"

definition round64 :: "real \<Rightarrow> real" where
  "round64 x = (if x = 0 then 0 else of_int (nearest_even (x / quantum x)) * quantum x)"

definition fl :: "real \<Rightarrow> f64" where
  "fl x =
     (if 2 ^ 1024 - 2 ^ 970 \<le> x then PInf
      else if x \<le> - (2 ^ 1024 - 2 ^ 970) then NInf
      else Fin (round64 x))"

text \<open>
  Addition and multiplication: NaN operands give NaN, so do \<open>inf - inf\<close> and
  \<open>0 * inf\<close>; finite operands give the rounded exact result.
\<close>

definition fadd :: "f64 \<Rightarrow> f64 \<Rightarrow> f64" where
  "fadd x y =
     (case (x, y) of
        (NaN, _) \<Rightarrow> NaN
      | (_, NaN) \<Rightarrow> NaN
      | (PInf, NInf) \<Rightarrow> NaN
      | (NInf, PInf) \<Rightarrow> NaN
      | (PInf, _) \<Rightarrow> PInf
      | (_, PInf) \<Rightarrow> PInf
      | (NInf, _) \<Rightarrow> NInf
      | (_, NInf) \<Rightarrow> NInf
      | (Fin a, Fin b) \<Rightarrow> fl (a + b))"

definition fmul :: "f64 \<Rightarrow> f64 \<Rightarrow> f64" where
  "fmul x y =
     (case (x, y) of
        (NaN, _) \<Rightarrow> NaN
      | (_, NaN) \<Rightarrow> NaN
      | (Fin a, Fin b) \<Rightarrow> fl (a * b)
      | (Fin a, PInf) \<Rightarrow> (if a = 0 then NaN else if 0 < a then PInf else NInf)
      | (Fin a, NInf) \<Rightarrow> (if a = 0 then NaN else if 0 < a then NInf else PInf)
      | (PInf, Fin b) \<Rightarrow> (if b = 0 then NaN else if 0 < b then PInf else NInf)
      | (NInf, Fin b) \<Rightarrow> (if b = 0 then NaN else if 0 < b then NInf else PInf)
      | (PInf, PInf) \<Rightarrow> PInf
      | (NInf, NInf) \<Rightarrow> PInf
      | (PInf, NInf) \<Rightarrow> NInf
      | (NInf, PInf) \<Rightarrow> NInf)"

text \<open>
  Comparison is false as soon as an operand is NaN. \<^verbatim>\<open>np.maximum\<close> returns NaN as
  soon as an operand is NaN and the larger operand otherwise.
\<close>

definition fle :: "f64 \<Rightarrow> f64 \<Rightarrow> bool" where
  "fle x y =
     (case (x, y) of
        (NaN, _) \<Rightarrow> False
      | (_, NaN) \<Rightarrow> False
      | (NInf, _) \<Rightarrow> True
      | (_, PInf) \<Rightarrow> True
      | (Fin a, Fin b) \<Rightarrow> a \<le> b
      | (PInf, _) \<Rightarrow> False
      | (_, NInf) \<Rightarrow> False)"

definition fmaximum :: "f64 \<Rightarrow> f64 \<Rightarrow> f64" where
  "fmaximum x y = (if x = NaN \<or> y = NaN then NaN else if fle y x then x else y)"

definition ge0 :: "f64 \<Rightarrow> bool" where
  "ge0 v = fle (Fin 0) v"

text \<open>
  Arrays of float64 values, and the three operations of \<^verbatim>\<open>hidden_nodes\<close> on them,
  with the shape checks of their real-valued counterparts above. \<^verbatim>\<open>np.dot\<close> hands
  the product to a BLAS routine; the order in which such a routine adds the
  products, and whether it fuses a product with an addition, is not fixed by
  numpy. Here every product is rounded and the rounded products are added from
  left to right.
\<close>

datatype farray = FArr1 "f64 list" | FArr2 nat "f64 list list"

fun fshape :: "farray \<Rightarrow> nat list" where
  "fshape (FArr1 xs) = [length xs]"
| "fshape (FArr2 c rs) = [length rs, c]"

fun famap :: "(f64 \<Rightarrow> f64) \<Rightarrow> farray \<Rightarrow> farray" where
  "famap f (FArr1 xs) = FArr1 (map f xs)"
| "famap f (FArr2 c rs) = FArr2 c (map (map f) rs)"

definition fsum :: "f64 list \<Rightarrow> f64" where
  "fsum xs = foldl fadd (Fin 0) xs"

definition matmul64 :: "nat \<Rightarrow> f64 list list \<Rightarrow> f64 list list \<Rightarrow> f64 list list" where
  "matmul64 c A B = map (\<lambda>r. map (\<lambda>j. fsum (map (\<lambda>(x, w). fmul x (w ! j)) (zip r B))) [0..<c]) A"

fun dot64 :: "farray \<Rightarrow> farray \<Rightarrow> error + farray" where
  "dot64 (FArr2 m A) (FArr2 c B) =
     (if m \<noteq> length B then Inl ValueError else Inr (FArr2 c (matmul64 c A B)))"
| "dot64 _ _ = Inl NotModelled"

fun add64 :: "farray \<Rightarrow> farray \<Rightarrow> error + farray" where
  "add64 (FArr2 c G) (FArr1 b) =
     (if c = length b then Inr (FArr2 c (map (\<lambda>r. map (\<lambda>(x, y). fadd x y) (zip r b)) G))
      else if length b = 1 then Inr (FArr2 c (map (map (\<lambda>x. fadd x (b ! 0))) G))
      else if c = 1 then Inr (FArr2 (length b) (map (\<lambda>r. map (\<lambda>y. fadd (r ! 0) y) b) G))
      else Inl ValueError)"
| "add64 _ _ = Inl NotModelled"

definition maximum64 :: "farray \<Rightarrow> f64 \<Rightarrow> farray" where
  "maximum64 a c = famap (\<lambda>v. fmaximum v c) a"

definition relu64 :: "farray \<Rightarrow> farray" where
  "relu64 x = maximum64 x (Fin 0)"

text \<open>
  \<^verbatim>\<open>hidden_nodes\<close> as a function from the arrays that \<open>X\<close>, \<^verbatim>\<open>input_weights\<close> and
  \<^verbatim>\<open>biases\<close> refer to, to the array it returns: the same three steps as above.
\<close>

definition hidden_nodes64 :: "farray \<Rightarrow> farray \<Rightarrow> farray \<Rightarrow> error + farray" where
  "hidden_nodes64 X W b =
     (case dot64 X W of
        Inl e \<Rightarrow> Inl e
      | Inr G \<Rightarrow>
          (case add64 G b of
             Inl e \<Rightarrow> Inl e
           | Inr G' \<Rightarrow> Inr (relu64 G')))"

text \<open>
  What the specification says the projection is, entry by entry: \<open>pre64\<close> is the
  entry \<open>(i, j)\<close> of \<open>X\<cdot>W_in + b\<close>, and the rectifier is applied to it.
\<close>

definition pre64 :: "nat \<Rightarrow> f64 list list \<Rightarrow> f64 list list \<Rightarrow> f64 list \<Rightarrow> nat \<Rightarrow> nat \<Rightarrow> f64" where
  "pre64 m X W b i j = fadd (fsum (map (\<lambda>k. fmul (X ! i ! k) (W ! k ! j)) [0..<m])) (b ! j)"

definition spec_project64 :: "nat \<Rightarrow> nat \<Rightarrow> f64 list list \<Rightarrow> f64 list list \<Rightarrow> f64 list \<Rightarrow> f64 list list" where
  "spec_project64 m h X W b =
     map (\<lambda>i. map (\<lambda>j. fmaximum (pre64 m X W b i j) (Fin 0)) [0..<h]) [0..<length X]"

text \<open>
  An input with one row and 32 features, every entry \<open>2^1023\<close>; weights for one
  hidden node, alternately \<open>2\<close> and \<open>-2\<close>; a zero bias. All entries are finite float64
  values.
\<close>

definition overflow_X :: farray where
  "overflow_X = FArr2 32 [map (\<lambda>k. Fin (2 ^ 1023)) [0..<32]]"

definition overflow_W :: farray where
  "overflow_W = FArr2 1 (map (\<lambda>k. [Fin (if even k then 2 else - 2)]) [0..<32])"

definition overflow_b :: farray where
  "overflow_b = FArr1 [Fin 0]"

section \<open>Properties\<close>

subsection \<open>Shapes and the primitive operations\<close>

lemma shape_Arr2: "shape a = [n, c] \<longleftrightarrow> (\<exists>rs. a = Arr2 c rs \<and> length rs = n)"
  by (cases a) auto

lemma shape_Arr1: "shape a = [k] \<longleftrightarrow> (\<exists>xs. a = Arr1 xs \<and> length xs = k)"
  by (cases a) auto

lemma shape_amap: "shape (amap f a) = shape a"
  by (cases a) auto

lemma entries_amap: "entries (amap f a) = map f (entries a)"
  by (cases a) (auto simp: map_concat)

lemma relu_eq: "relu x s = (Inr x, s\<lparr>heap := (heap s)(x := amap (\<lambda>v. max v 0) (heap s x))\<rparr>)"
  by (simp add: relu_def np_maximum_def shape_amap Let_def)

lemma np_dot_cases:
  "np_dot a b s = (case dot (heap s a) (heap s b) of
       Inl e \<Rightarrow> (Inl e, s)
     | Inr v \<Rightarrow> (Inr (nxt s), s\<lparr>heap := (heap s)(nxt s := v), nxt := Suc (nxt s)\<rparr>))"
  by (simp add: np_dot_def lift_result_def new_array_def split: sum.splits)

lemma np_add_cases:
  "np_add a b s = (case add (heap s a) (heap s b) of
       Inl e \<Rightarrow> (Inl e, s)
     | Inr v \<Rightarrow> (Inr (nxt s), s\<lparr>heap := (heap s)(nxt s := v), nxt := Suc (nxt s)\<rparr>))"
  by (simp add: np_add_def lift_result_def new_array_def split: sum.splits)

lemma call_pinv2_cases:
  "call_pinv2 pinv2 a s = (case pinv2 (heap s a) of
       Inl e \<Rightarrow> (Inl e, s)
     | Inr v \<Rightarrow> (Inr (nxt s), s\<lparr>heap := (heap s)(nxt s := v), nxt := Suc (nxt s)\<rparr>))"
  by (simp add: call_pinv2_def lift_result_def new_array_def split: sum.splits)

lemmas py_simps = py_bind_def py_return_def np_dot_cases np_add_cases call_pinv2_cases relu_eq
  assign_output_weights_def read_output_weights_def

lemma hidden_nodes_frame:
  "hidden_nodes X s = (r, s') \<Longrightarrow> frame s s' \<and> output_weights s' = output_weights s"
  by (auto simp: hidden_nodes_def py_simps frame_def split: sum.splits prod.splits)

lemma hidden_nodes_result:
  "biases s < nxt s \<Longrightarrow>
   result_value (hidden_nodes X s) = hidden_nodes_value (heap s X) (heap s (input_weights s)) (heap s (biases s))"
  by (auto simp: hidden_nodes_def py_simps result_value_def hidden_nodes_value_def split: sum.splits prod.splits)

lemma solve_frame:
  "solve pinv2 H Y s = (r, s') \<Longrightarrow> frame s s'"
  by (auto simp: solve_def py_simps frame_def split: sum.splits prod.splits)

lemma solve_fail:
  "solve pinv2 H Y s = (Inl e, s') \<Longrightarrow> output_weights s' = output_weights s"
  by (auto simp: solve_def py_simps frame_def split: sum.splits prod.splits)

lemma solve_result:
  "Y < nxt s \<Longrightarrow> solve pinv2 H Y s = (r, s') \<Longrightarrow>
   (case r of
      Inl e \<Rightarrow> solve_value pinv2 (heap s H) (heap s Y) = Inl e
    | Inr u \<Rightarrow> (\<exists>W. output_weights s' = Some W \<and> nxt s \<le> W \<and> W < nxt s' \<and>
                 solve_value pinv2 (heap s H) (heap s Y) = Inr (heap s' W)))"
  by (auto simp: solve_def py_simps solve_value_def split: sum.splits prod.splits)

lemma frame_trans: "frame s t \<Longrightarrow> frame t u \<Longrightarrow> frame s u"
  by (auto simp: frame_def)

lemma fit_frame:
  assumes "fit pinv2 X Y s = (r, s')" shows "frame s s'"
proof (cases "hidden_nodes X s")
  case (Pair r1 s1)
  then have f1: "frame s s1" using hidden_nodes_frame by blast
  show ?thesis
  proof (cases r1)
    case (Inl e)
    with Pair assms have "s' = s1" by (simp add: fit_def py_bind_def)
    with f1 show ?thesis by simp
  next
    case (Inr H)
    with Pair assms have "solve pinv2 H Y s1 = (r, s')" by (simp add: fit_def py_bind_def)
    then have "frame s1 s'" by (rule solve_frame)
    with f1 show ?thesis by (rule frame_trans)
  qed
qed

lemma fit_fail:
  assumes "fit pinv2 X Y s = (Inl e, s')" shows "output_weights s' = output_weights s"
proof (cases "hidden_nodes X s")
  case (Pair r1 s1)
  then have f1: "output_weights s1 = output_weights s" using hidden_nodes_frame by blast
  show ?thesis
  proof (cases r1)
    case (Inl e)
    with Pair assms have "s' = s1" by (simp add: fit_def py_bind_def)
    with f1 show ?thesis by simp
  next
    case (Inr H)
    with Pair assms have "solve pinv2 H Y s1 = (Inl e, s')" by (simp add: fit_def py_bind_def)
    then have "output_weights s' = output_weights s1" by (rule solve_fail)
    with f1 show ?thesis by simp
  qed
qed

lemma fit_result:
  assumes "biases s < nxt s" "Y < nxt s" "fit pinv2 X Y s = (r, s')"
  shows "case r of
      Inl e \<Rightarrow> fit_value pinv2 (heap s X) (heap s Y) (heap s (input_weights s)) (heap s (biases s)) = Inl e
    | Inr u \<Rightarrow> (\<exists>W. output_weights s' = Some W \<and> nxt s \<le> W \<and> W < nxt s' \<and>
                 fit_value pinv2 (heap s X) (heap s Y) (heap s (input_weights s)) (heap s (biases s)) = Inr (heap s' W))"
proof (cases "hidden_nodes X s")
  case (Pair r1 s1)
  then have f1: "frame s s1" using hidden_nodes_frame by blast
  have v1: "result_value (r1, s1) = hidden_nodes_value (heap s X) (heap s (input_weights s)) (heap s (biases s))"
    using hidden_nodes_result [OF assms(1), of X] Pair by simp
  show ?thesis
  proof (cases r1)
    case (Inl e)
    with Pair assms have "r = Inl e" by (simp add: fit_def py_bind_def)
    with v1 [symmetric] Inl show ?thesis by (simp add: result_value_def fit_value_def)
  next
    case (Inr H)
    with Pair assms have sv: "solve pinv2 H Y s1 = (r, s')" by (simp add: fit_def py_bind_def)
    have Y1: "Y < nxt s1" "heap s1 Y = heap s Y" using f1 assms(2) by (auto simp: frame_def)
    have hv: "hidden_nodes_value (heap s X) (heap s (input_weights s)) (heap s (biases s)) = Inr (heap s1 H)"
      using v1 Inr by (simp add: result_value_def)
    have n1: "nxt s \<le> nxt s1" using f1 by (simp add: frame_def)
    from solve_result [OF Y1(1) sv] show ?thesis
      using hv Y1(2) n1 by (auto simp: fit_value_def split: sum.splits)
  qed
qed

lemma predict_frame:
  assumes "predict X s = (r, s')" shows "frame s s' \<and> output_weights s' = output_weights s"
proof (cases "hidden_nodes X s")
  case (Pair r1 s1)
  then have f1: "frame s s1 \<and> output_weights s1 = output_weights s" using hidden_nodes_frame by blast
  show ?thesis
  proof (cases r1)
    case (Inl e)
    with Pair assms have "s' = s1" by (simp add: predict_def py_bind_def)
    with f1 show ?thesis by simp
  next
    case (Inr H)
    with Pair assms have "frame s1 s' \<and> output_weights s' = output_weights s1"
      by (auto simp: predict_def py_simps frame_def split: option.splits sum.splits)
    with f1 show ?thesis by (auto intro: frame_trans)
  qed
qed

lemma predict_result:
  assumes "biases s < nxt s" "case output_weights s of None \<Rightarrow> True | Some W \<Rightarrow> W < nxt s"
  shows "result_value (predict X s) =
     predict_value (heap s X) (heap s (input_weights s)) (heap s (biases s)) (map_option (heap s) (output_weights s))"
proof (cases "hidden_nodes X s")
  case (Pair r1 s1)
  then have f1: "frame s s1" "output_weights s1 = output_weights s" using hidden_nodes_frame by blast+
  have v1: "result_value (r1, s1) = hidden_nodes_value (heap s X) (heap s (input_weights s)) (heap s (biases s))"
    using hidden_nodes_result [OF assms(1), of X] Pair by simp
  show ?thesis
  proof (cases r1)
    case (Inl e)
    with Pair have "predict X s = (Inl e, s1)" by (simp add: predict_def py_bind_def)
    with v1 [symmetric] Inl show ?thesis by (simp add: result_value_def predict_value_def)
  next
    case (Inr H)
    have hv: "hidden_nodes_value (heap s X) (heap s (input_weights s)) (heap s (biases s)) = Inr (heap s1 H)"
      using v1 Inr by (simp add: result_value_def)
    show ?thesis
    proof (cases "output_weights s")
      case None
      with Pair Inr f1 have "predict X s = (Inl NameError, s1)" by (simp add: predict_def py_simps)
      with hv None show ?thesis by (simp add: result_value_def predict_value_def)
    next
      case (Some W)
      with assms(2) have "W < nxt s" by simp
      with f1 have hW: "heap s1 W = heap s W" by (simp add: frame_def)
      from Pair Inr f1 Some have "predict X s = np_dot H W s1"
        by (simp add: predict_def py_simps split: sum.splits)
      then show ?thesis using hv Some hW
        by (auto simp: np_dot_cases result_value_def predict_value_def split: sum.splits)
    qed
  qed
qed

subsection \<open>The computed arrays, entry by entry\<close>

lemma zip_sum_nth:
  "length r = length B \<Longrightarrow>
   sum_list (map (\<lambda>(x, w). x * w ! j) (zip r B)) = (\<Sum>k<length B. r ! k * B ! k ! j)"
  by (simp add: sum_list_sum_nth atLeast0LessThan)

lemma matmul_spec:
  assumes "\<forall>r \<in> set A. length r = length B"
  shows "matmul c A B = spec_dot (length B) c A B"
proof -
  have "map (\<lambda>r. map (\<lambda>j. sum_list (map (\<lambda>(x, w). x * w ! j) (zip r B))) [0..<c]) A
      = map (\<lambda>r. map (\<lambda>j. \<Sum>k<length B. r ! k * B ! k ! j) [0..<c]) A"
    using assms by (simp add: zip_sum_nth)
  also have "\<dots> = map (\<lambda>i. map (\<lambda>j. \<Sum>k<length B. A ! i ! k * B ! k ! j) [0..<c]) [0..<length A]"
    by (rule nth_equalityI) simp_all
  finally show ?thesis by (simp add: matmul_def spec_dot_def)
qed

lemma length_spec_dot: "length (spec_dot m c A B) = length A"
  by (simp add: spec_dot_def)

lemma wf_spec_dot: "wf_array (Arr2 c (spec_dot m c A B))"
  by (auto simp: spec_dot_def)

lemma spec_dot_nth: "i < length A \<Longrightarrow> j < c \<Longrightarrow> spec_dot m c A B ! i ! j = (\<Sum>k<m. A ! i ! k * B ! k ! j)"
  by (simp add: spec_dot_def)

lemma dot_spec:
  assumes "wf_array (Arr2 m A)" "length B = m"
  shows "dot (Arr2 m A) (Arr2 c B) = Inr (Arr2 c (spec_dot m c A B))"
  using assms matmul_spec [of A B c] by simp

lemma hidden_nodes_value_spec:
  assumes "wf_array (Arr2 m X)" "length W = m" "length b = h"
  shows "hidden_nodes_value (Arr2 m X) (Arr2 h W) (Arr1 b) = Inr (Arr2 h (spec_project m h X W b))"
proof -
  have "map (map (\<lambda>v. max v 0)) (map (\<lambda>r. map (\<lambda>(x, y). x + y) (zip r b)) (spec_dot m h X W))
      = spec_project m h X W b"
    using assms(3) by (auto simp: spec_dot_def spec_project_def intro!: nth_equalityI)
  then show ?thesis using assms matmul_spec [of X W h] by (simp add: hidden_nodes_value_def)
qed

lemma spec_project_nonneg: "\<forall>v \<in> set (concat (spec_project m h X W b)). 0 \<le> v"
  by (auto simp: spec_project_def)

lemma length_spec_project: "length (spec_project m h X W b) = length X"
  by (simp add: spec_project_def)

lemma wf_spec_project: "wf_array (Arr2 h (spec_project m h X W b))"
  by (auto simp: spec_project_def)

subsection \<open>The example model\<close>

lemma construct_model_inv:
  "model_inv input_size hidden_size (construct rnd input_size hidden_size h n)"
  by (simp add: model_inv_def construct_def normal2_def normal1_def)

lemma construct_keeps_data:
  "a < n \<Longrightarrow> heap (construct rnd input_size hidden_size h n) a = h a"
  by (simp add: construct_def)

lemma spec_project_demo:
  "spec_project 2 1 [[1, 0], [0, 1]] [[1], [- 1]] [1 / 2] = [[3 / 2], [0]]"
  by (simp add: spec_project_def upt_rec lessThan_Suc numeral_2_eq_2)

lemma spec_dot_demo:
  "spec_dot 2 2 [[2 / 3, 0]] [[1, 0], [0, 1]] = [[2 / 3, 0]]"
  by (simp add: spec_dot_def upt_rec lessThan_Suc numeral_2_eq_2)

lemma result_value_InrD:
  "result_value p = Inr v \<Longrightarrow> \<exists>a s'. p = (Inr a, s') \<and> heap s' a = v"
  by (cases p) (auto simp: result_value_def split: sum.splits)

lemma demo_fields:
  "nxt demo = 8" "input_weights demo = 6" "biases demo = 7" "output_weights demo = None"
  by (simp_all add: demo_def construct_def)

lemma demo_heap:
  "heap demo 2 = Arr2 2 [[1, 0], [0, 1]]"
  "heap demo 3 = Arr2 2 [[1, 0], [0, 1]]"
  "heap demo 4 = Arr2 2 [[2, 0]]"
  "heap demo 5 = Arr2 3 [[1, 2, 3]]"
  "heap demo 6 = Arr2 1 [[1], [- 1]]"
  "heap demo 7 = Arr1 [1 / 2]"
  by (simp_all add: demo_def construct_def demo_data_def normal2_def normal1_def demo_rnd_def upt_rec)

lemma model_inv_demo: "model_inv 2 1 demo"
  by (simp add: model_inv_def demo_fields demo_heap)

lemma hidden_nodes_demo_run:
  "hidden_nodes 2 demo = (Inr 9, demo\<lparr>heap := (heap demo)(8 := Arr2 1 [[1], [- 1]], 9 := Arr2 1 [[3 / 2], [0]]), nxt := 10\<rparr>)"
  by (simp add: hidden_nodes_def py_simps demo_fields demo_heap matmul_def upt_rec)

lemma demo_hidden_fields:
  "nxt demo_hidden = 10" "input_weights demo_hidden = 6" "biases demo_hidden = 7"
  "output_weights demo_hidden = None"
  by (simp_all add: demo_hidden_def hidden_nodes_demo_run demo_fields)

lemma demo_hidden_heap:
  "heap demo_hidden 2 = Arr2 2 [[1, 0], [0, 1]]"
  "heap demo_hidden 3 = Arr2 2 [[1, 0], [0, 1]]"
  "heap demo_hidden 4 = Arr2 2 [[2, 0]]"
  "heap demo_hidden 5 = Arr2 3 [[1, 2, 3]]"
  "heap demo_hidden 6 = Arr2 1 [[1], [- 1]]"
  "heap demo_hidden 7 = Arr1 [1 / 2]"
  "heap demo_hidden 9 = Arr2 1 [[3 / 2], [0]]"
  by (simp_all add: demo_hidden_def hidden_nodes_demo_run demo_heap)

lemma Suc_Suc_0: "Suc (Suc 0) = 2"
  by simp

lemma fit_demo_run:
  "fit pinv_column 2 3 demo = (Inr (),
     demo\<lparr>heap := (heap demo)(8 := Arr2 1 [[1], [- 1]], 9 := Arr2 1 [[3 / 2], [0]],
                             10 := Arr2 2 [[2 / 3, 0]], 11 := Arr2 2 [[2 / 3, 0]]),
          nxt := 12, output_weights := Some 11\<rparr>)"
  by (simp add: fit_def solve_def py_simps hidden_nodes_demo_run pinv_column_def power2_eq_square demo_heap matmul_def upt_rec Suc_Suc_0)

lemma demo_fitted_fields:
  "nxt demo_fitted = 12" "input_weights demo_fitted = 6" "biases demo_fitted = 7"
  "output_weights demo_fitted = Some 11"
  by (simp_all add: demo_fitted_def fit_demo_run demo_fields)

lemma demo_fitted_heap:
  "heap demo_fitted 2 = Arr2 2 [[1, 0], [0, 1]]"
  "heap demo_fitted 3 = Arr2 2 [[1, 0], [0, 1]]"
  "heap demo_fitted 4 = Arr2 2 [[2, 0]]"
  "heap demo_fitted 5 = Arr2 3 [[1, 2, 3]]"
  "heap demo_fitted 6 = Arr2 1 [[1], [- 1]]"
  "heap demo_fitted 7 = Arr1 [1 / 2]"
  "heap demo_fitted 9 = Arr2 1 [[3 / 2], [0]]"
  "heap demo_fitted 11 = Arr2 2 [[2 / 3, 0]]"
  by (simp_all add: demo_fitted_def fit_demo_run demo_heap)

lemma model_inv_demo_hidden: "model_inv 2 1 demo_hidden"
  by (simp add: model_inv_def demo_hidden_fields demo_hidden_heap)

lemma model_inv_demo_fitted: "model_inv 2 1 demo_fitted"
  by (simp add: model_inv_def demo_fitted_fields demo_fitted_heap)

lemma predict_demo:
  "result_value (predict 4 demo_fitted) = Inr (Arr2 2 [[5 / 3, 0]])"
  by (simp add: predict_def hidden_nodes_def py_simps result_value_def demo_fitted_fields demo_fitted_heap matmul_def upt_rec)

subsection \<open>Runs of the operations\<close>

lemma solve_run:
  assumes "Y < nxt s" "pinv (heap s H) = Inr P"
  shows "solve pinv H Y s =
     (case dot P (heap s Y) of
        Inl e \<Rightarrow> (Inl e, s\<lparr>heap := (heap s)(nxt s := P), nxt := Suc (nxt s)\<rparr>)
      | Inr W \<Rightarrow> (Inr (), s\<lparr>heap := (heap s)(nxt s := P, Suc (nxt s) := W),
                              nxt := Suc (Suc (nxt s)), output_weights := Some (Suc (nxt s))\<rparr>))"
  using assms by (auto simp: solve_def py_simps split: sum.splits)

lemma hidden_nodes_mismatch:
  assumes "heap s X = Arr2 m' Xr" "heap s (input_weights s) = Arr2 h W" "m' \<noteq> length W"
  shows "hidden_nodes X s = (Inl ValueError, s)"
  using assms by (simp add: hidden_nodes_def py_simps)

lemma predict_mismatch:
  assumes "heap s X = Arr2 m' Xr" "heap s (input_weights s) = Arr2 h W" "m' \<noteq> length W"
  shows "predict X s = (Inl ValueError, s)"
  using hidden_nodes_mismatch [OF assms] by (simp add: predict_def py_bind_def)

lemma model_inv_weights:
  "model_inv m h s \<Longrightarrow> \<exists>W. heap s (input_weights s) = Arr2 h W \<and> length W = m"
  by (auto simp: model_inv_def shape_Arr2)

lemma model_inv_biases:
  "model_inv m h s \<Longrightarrow> \<exists>b. heap s (biases s) = Arr1 b \<and> length b = h"
  by (auto simp: model_inv_def shape_Arr1)

lemma hidden_nodes_succeeds:
  assumes "model_inv m h s" "heap s X = Arr2 m Xr"
  shows "\<exists>H s'. hidden_nodes X s = (Inr H, s')"
proof -
  obtain W b where "heap s (input_weights s) = Arr2 h W" "length W = m" "heap s (biases s) = Arr1 b" "length b = h"
    using model_inv_weights [OF assms(1)] model_inv_biases [OF assms(1)] by blast
  moreover have "biases s < nxt s" using assms(1) by (simp add: model_inv_def)
  ultimately show ?thesis using assms(2)
    by (simp add: hidden_nodes_def py_simps)
qed

subsection \<open>Frames\<close>

lemma frame_refl: "frame s s"
  by (simp add: frame_def)

lemma frame_heap: "frame s s' \<Longrightarrow> a < nxt s \<Longrightarrow> heap s' a = heap s a"
  by (simp add: frame_def)

lemma frame_same_parameters:
  "frame s s' \<Longrightarrow> input_weights s < nxt s \<Longrightarrow> biases s < nxt s \<Longrightarrow> same_parameters s s'"
  by (simp add: frame_def same_parameters_def)

lemma frame_same_model:
  "frame s s' \<Longrightarrow> model_inv m h s \<Longrightarrow> output_weights s' = output_weights s \<Longrightarrow> same_model s s'"
  by (auto simp: frame_def same_model_def same_parameters_def model_inv_def split: option.splits)

lemma frame_model_inv:
  assumes "frame s s'" "model_inv m h s"
    "output_weights s' = output_weights s \<or> (\<exists>W. output_weights s' = Some W \<and> W < nxt s')"
  shows "model_inv m h s'"
  using assms by (auto simp: frame_def model_inv_def split: option.splits)

lemma fit_output_weights:
  assumes "fit pinv X Y s = (r, s')"
  shows "output_weights s' = output_weights s \<or> (\<exists>W. output_weights s' = Some W \<and> W < nxt s')"
proof (cases "hidden_nodes X s")
  case (Pair r1 s1)
  then have o1: "output_weights s1 = output_weights s" using hidden_nodes_frame by blast
  show ?thesis
  proof (cases r1)
    case (Inl e)
    with Pair assms have "s' = s1" by (simp add: fit_def py_bind_def)
    with o1 show ?thesis by simp
  next
    case (Inr H)
    with Pair assms have "solve pinv H Y s1 = (r, s')" by (simp add: fit_def py_bind_def)
    then have "output_weights s' = output_weights s1 \<or> (\<exists>W. output_weights s' = Some W \<and> W < nxt s')"
      by (auto simp: solve_def py_simps split: sum.splits prod.splits)
    with o1 show ?thesis by simp
  qed
qed

lemma solve_output_weights:
  assumes "solve pinv H Y s = (r, s')"
  shows "output_weights s' = output_weights s \<or> (\<exists>W. output_weights s' = Some W \<and> W < nxt s')"
  using assms by (auto simp: solve_def py_simps split: sum.splits prod.splits)

lemma frame_parameters:
  assumes "frame s s'" "input_weights s < nxt s" "biases s < nxt s"
  shows "heap s' (input_weights s') = heap s (input_weights s)"
    and "heap s' (biases s') = heap s (biases s)"
    and "input_weights s' < nxt s'" and "biases s' < nxt s'"
  using assms by (auto simp: frame_def)

lemma solve_demo_fitted_fails: "fst (solve pinv_column 9 4 demo_fitted) = Inl ValueError"
  by (simp add: solve_def py_simps demo_fitted_heap demo_fitted_fields pinv_column_def power2_eq_square)

lemma fit_demo_fitted_fails: "fst (fit pinv_column 5 3 demo_fitted) = Inl ValueError"
  by (simp add: fit_def hidden_nodes_def py_simps demo_fitted_heap demo_fitted_fields)

lemma fit_demo_first_run:
  "fit pinv_column 4 4 demo = (Inr (),
     demo\<lparr>heap := (heap demo)(8 := Arr2 1 [[2]], 9 := Arr2 1 [[5 / 2]],
                             10 := Arr2 1 [[2 / 5]], 11 := Arr2 2 [[4 / 5, 0]]),
          nxt := 12, output_weights := Some 11\<rparr>)"
  by (simp add: fit_def solve_def hidden_nodes_def py_simps pinv_column_def power2_eq_square
      demo_fields demo_heap matmul_def upt_rec)

lemma demo_first_fields:
  "nxt demo_first = 12" "input_weights demo_first = 6" "biases demo_first = 7"
  "output_weights demo_first = Some 11"
  by (simp_all add: demo_first_def fit_demo_first_run demo_fields)

lemma demo_first_heap:
  "heap demo_first 2 = Arr2 2 [[1, 0], [0, 1]]"
  "heap demo_first 3 = Arr2 2 [[1, 0], [0, 1]]"
  "heap demo_first 4 = Arr2 2 [[2, 0]]"
  "heap demo_first 6 = Arr2 1 [[1], [- 1]]"
  "heap demo_first 7 = Arr1 [1 / 2]"
  "heap demo_first 11 = Arr2 2 [[4 / 5, 0]]"
  by (simp_all add: demo_first_def fit_demo_first_run demo_heap)

lemma fit_demo_refit_run:
  "fit pinv_column 2 3 demo_first = (Inr (),
     demo_first\<lparr>heap := (heap demo_first)(12 := Arr2 1 [[1], [- 1]], 13 := Arr2 1 [[3 / 2], [0]],
                             14 := Arr2 2 [[2 / 3, 0]], 15 := Arr2 2 [[2 / 3, 0]]),
          nxt := 16, output_weights := Some 15\<rparr>)"
  by (simp add: fit_def solve_def hidden_nodes_def py_simps pinv_column_def power2_eq_square
      demo_first_fields demo_first_heap matmul_def upt_rec Suc_Suc_0)

lemma demo_refit_output_weights:
  "output_weights demo_refit = Some 15" "heap demo_refit 15 = Arr2 2 [[2 / 3, 0]]"
  "heap demo_first 11 \<noteq> heap demo_refit 15"
  by (simp_all add: demo_refit_def fit_demo_refit_run demo_first_heap)

subsection \<open>The scaler\<close>

lemma fit_transform_ignores_state: "fit_transform sc a = fit_transform sc0 a"
  by (simp add: fit_transform_def)

lemma fit_transform_InrD:
  assumes "fit_transform sc a = Inr (z, sc')"
  shows "\<exists>mu sd. fit_stats a = Inr (mu, sd) \<and> transform (Some (mu, sd)) a = Inr z \<and> sc' = Some (mu, sd)"
  using assms by (auto simp: fit_transform_def split: sum.splits)

lemma fit_transform_standardized:
  assumes "fit_transform sc a = Inr (z, sc')"
  shows "\<exists>c rs. a = Arr2 c rs \<and> z = Arr2 c (standardized c rs)"
  using assms
  by (cases a)
    (auto simp: fit_transform_def fit_stats_def transform_def standardized_def split: if_splits)

lemma features_demo:
  "features demo_train = Inr (Arr2 2 [[0, 1], [4, 1]])"
  "features demo_test = Inr (Arr2 2 [[10, 5], [12, 7]])"
  by (simp_all add: features_def demo_train_def demo_test_def)

lemma fit_stats_demo:
  "fit_stats (Arr2 2 [[0, 1], [4, 1]]) = Inr ([2, 1], [2, 1])"
  "fit_stats (Arr2 2 [[10, 5], [12, 7]]) = Inr ([11, 6], [1, 1])"
  by (simp_all add: fit_stats_def column_def mean_def variance_def scale_of_def power2_eq_square upt_rec)

lemma scale_features_demo:
  "scale_features None demo_train demo_test =
     Inr (Arr2 2 [[- 1, 0], [1, 0]], Arr2 2 [[- 1, - 1], [1, 1]], Some ([11, 6], [1, 1]))"
  by (simp add: scale_features_def fit_transform_def features_demo fit_stats_demo transform_def upt_rec)

lemma train_statistics_on_test_demo:
  "transform (Some ([2, 1], [2, 1])) (Arr2 2 [[10, 5], [12, 7]]) = Inr (Arr2 2 [[4, 4], [5, 6]])"
  by (simp add: transform_def upt_rec)

subsection \<open>float64 arithmetic and the projection on float64 values\<close>

lemma zip_map_nth:
  "length r = length B \<Longrightarrow> map (\<lambda>(x, w). f x w) (zip r B) = map (\<lambda>k. f (r ! k) (B ! k)) [0..<length B]"
  by (rule nth_equalityI) simp_all

lemma matmul64_nth:
  assumes "\<forall>r \<in> set A. length r = length B"
  shows "matmul64 c A B =
     map (\<lambda>i. map (\<lambda>j. fsum (map (\<lambda>k. fmul (A ! i ! k) (B ! k ! j)) [0..<length B])) [0..<c]) [0..<length A]"
proof -
  have "matmul64 c A B = map (\<lambda>r. map (\<lambda>j. fsum (map (\<lambda>k. fmul (r ! k) (B ! k ! j)) [0..<length B])) [0..<c]) A"
    unfolding matmul64_def
    using assms zip_map_nth [of _ B "\<lambda>x w. fmul x (w ! _)"] by (intro map_cong refl) simp
  also have "\<dots> = map (\<lambda>i. map (\<lambda>j. fsum (map (\<lambda>k. fmul (A ! i ! k) (B ! k ! j)) [0..<length B])) [0..<c]) [0..<length A]"
    by (rule nth_equalityI) simp_all
  finally show ?thesis .
qed

lemma hidden_nodes64_spec:
  assumes "\<forall>r \<in> set X. length r = m" "length W = m" "length b = h"
  shows "hidden_nodes64 (FArr2 m X) (FArr2 h W) (FArr1 b) = Inr (FArr2 h (spec_project64 m h X W b))"
proof -
  have "map (map (\<lambda>v. fmaximum v (Fin 0)))
          (map (\<lambda>r. map (\<lambda>(x, y). fadd x y) (zip r b)) (matmul64 h X W))
      = spec_project64 m h X W b"
    using assms matmul64_nth [of X W h]
    by (auto simp: spec_project64_def pre64_def intro!: nth_equalityI)
  then show ?thesis
    using assms by (simp add: hidden_nodes64_def relu64_def maximum64_def)
qed

lemma f64_examples:
  "fadd PInf NInf = NaN" "fadd NInf PInf = NaN" "fadd PInf PInf = PInf" "fadd NInf NInf = NInf"
  "fadd (Fin 1) PInf = PInf" "fadd NInf (Fin 1) = NInf" "fadd NaN (Fin 1) = NaN"
  "fmul (Fin 0) PInf = NaN" "fmul NInf (Fin 0) = NaN" "fmul NInf (Fin (- 1)) = PInf"
  "fmul PInf NInf = NInf" "fmul (Fin (2 ^ 1023)) (Fin 2) = PInf"
  "fmul (Fin (2 ^ 1023)) (Fin (- 2)) = NInf"
  "fmaximum NaN (Fin 0) = NaN" "fmaximum NInf (Fin 0) = Fin 0" "fmaximum PInf (Fin 0) = PInf"
  "fmaximum (Fin (- 3)) (Fin 0) = Fin 0" "fmaximum (Fin 3) (Fin 0) = Fin 3"
  by (simp_all add: fadd_def fmul_def fl_def fmaximum_def fle_def)

lemma fmaximum_NaN: "fmaximum NaN (Fin 0) = NaN"
  by (simp add: fmaximum_def)

lemma fmaximum_ge0: "p \<noteq> NaN \<Longrightarrow> ge0 (fmaximum p (Fin 0))"
  by (cases p) (simp_all add: fmaximum_def fle_def ge0_def)

lemma fmaximum_cases: "fmaximum p (Fin 0) = NaN \<or> ge0 (fmaximum p (Fin 0))"
  using fmaximum_NaN fmaximum_ge0 by (cases "p = NaN") simp_all

lemma not_ge0_NaN: "\<not> ge0 NaN"
  by (simp add: ge0_def fle_def)

lemma fsum_NaN: "foldl fadd NaN xs = NaN"
  by (induction xs) (simp_all add: fadd_def)

lemma hidden_nodes64_overflow:
  "hidden_nodes64 overflow_X overflow_W overflow_b = Inr (FArr2 1 [[NaN]])"
proof -
  have two: "[0..<32] = 0 # 1 # [2..<32]"
    by (simp add: upt_conv_Cons)
  have "fsum (map (\<lambda>(x, w). fmul x (w ! 0))
          (zip (map (\<lambda>k. Fin (2 ^ 1023)) [0..<32]) (map (\<lambda>k. [Fin (if even k then 2 else - 2)]) [0..<32]))) = NaN"
    unfolding two by (simp add: fsum_def fmul_def fl_def fadd_def fsum_NaN)
  then show ?thesis
    by (simp add: hidden_nodes64_def overflow_X_def overflow_W_def overflow_b_def matmul64_def
        relu64_def maximum64_def fadd_def fmaximum_def)
qed

lemma floor_log2:
  assumes "2 ^ n \<le> x" "x < 2 ^ Suc n"
  shows "\<lfloor>log 2 x\<rfloor> = int n"
proof -
  have pos: "0 < x" using assms(1) by (smt (verit) zero_less_power)
  have "real n \<le> log 2 x"
    using assms(1) pos by (simp add: le_log_iff powr_realpow)
  moreover have "log 2 x < real n + 1"
    using assms(2) pos by (simp add: log_less_iff powr_realpow powr_add)
  ultimately show ?thesis by (intro floor_unique) simp_all
qed

lemma quantum_eval:
  assumes "2 ^ n \<le> \<bar>x\<bar>" "\<bar>x\<bar> < 2 ^ Suc n" "52 \<le> n"
  shows "quantum x = 2 ^ (n - 52)"
proof -
  have "\<lfloor>log 2 \<bar>x\<bar>\<rfloor> = int n" using assms(1,2) by (rule floor_log2)
  then have "quantum x = 2 powr (real n - 52)"
    by (simp add: quantum_def max_def)
  also have "real n - 52 = real (n - 52)" using assms(3) by simp
  finally show ?thesis by (simp add: powr_realpow)
qed

lemma round64_examples:
  "round64 (2 ^ 53) = 2 ^ 53"
  "round64 (2 ^ 53 + 1) = 2 ^ 53"
  "round64 (2 ^ 53 + 3) = 2 ^ 53 + 4"
  "round64 1 = 1"
proof -
  have q: "quantum (2 ^ 53) = 2" "quantum (2 ^ 53 + 1) = 2" "quantum (2 ^ 53 + 3) = 2"
    using quantum_eval [of 53 "2 ^ 53"] quantum_eval [of 53 "2 ^ 53 + 1"] quantum_eval [of 53 "2 ^ 53 + 3"]
    by simp_all
  show "round64 (2 ^ 53) = 2 ^ 53" "round64 (2 ^ 53 + 1) = 2 ^ 53" "round64 (2 ^ 53 + 3) = 2 ^ 53 + 4"
    by (simp_all only: round64_def q) (simp_all add: nearest_even_def Let_def)
  have "quantum 1 = 2 powr (- 52)"
    by (simp add: quantum_def)
  also have "\<dots> = 1 / 2 ^ 52"
    using powr_realpow [of 2 52] by (simp add: powr_minus_divide)
  finally have q1: "quantum 1 = 1 / 2 ^ 52" .
  show "round64 1 = 1"
    by (simp only: round64_def q1) (simp add: nearest_even_def Let_def)
qed

lemma fl_examples:
  "fl (2 ^ 53) = Fin (2 ^ 53)" "fl (2 ^ 53 + 1) = Fin (2 ^ 53)"
  by (simp_all only: fl_def round64_examples) simp_all

lemma hidden_nodes64_rounding:
  "hidden_nodes64 (FArr2 1 [[Fin (2 ^ 53)]]) (FArr2 1 [[Fin 1]]) (FArr1 [Fin 1]) = Inr (FArr2 1 [[Fin (2 ^ 53)]])"
proof -
  have a: "fmul (Fin (2 ^ 53)) (Fin 1) = Fin (2 ^ 53)"
    using fl_examples(1) by (simp add: fmul_def)
  have b: "fadd (Fin 0) (Fin (2 ^ 53)) = Fin (2 ^ 53)"
    using fl_examples(1) by (simp add: fadd_def)
  have c: "fadd (Fin (2 ^ 53)) (Fin 1) = Fin (2 ^ 53)"
    using fl_examples(2) by (simp add: fadd_def)
  have d: "fmaximum (Fin (2 ^ 53)) (Fin 0) = Fin (2 ^ 53)"
    by (simp add: fmaximum_def fle_def)
  have "pre64 1 [[Fin (2 ^ 53)]] [[Fin 1]] [Fin 1] 0 0 = Fin (2 ^ 53)"
    using a b c by (simp add: pre64_def fsum_def)
  then have "spec_project64 1 1 [[Fin (2 ^ 53)]] [[Fin 1]] [Fin 1] = [[Fin (2 ^ 53)]]"
    using d by (simp add: spec_project64_def)
  then show ?thesis
    using hidden_nodes64_spec [of "[[Fin (2 ^ 53)]]" 1 "[[Fin 1]]" "[Fin 1]" 1] by simp
qed

text \<open>
  The two models of the projection raise the same exceptions and return arrays of
  the same shape.
\<close>

lemma dot64_shape:
  assumes "fshape X = shape X'" "fshape W = shape W'"
  shows "case dot64 X W of
           Inl e \<Rightarrow> dot X' W' = Inl e
         | Inr a \<Rightarrow> (\<exists>a'. dot X' W' = Inr a' \<and> shape a' = fshape a)"
  using assms
  by (cases X; cases W; cases X'; cases W') (auto simp: matmul64_def matmul_def)

lemma add64_shape:
  assumes "fshape G = shape G'" "fshape b = shape b'"
  shows "case add64 G b of
           Inl e \<Rightarrow> add G' b' = Inl e
         | Inr a \<Rightarrow> (\<exists>a'. add G' b' = Inr a' \<and> shape a' = fshape a)"
  using assms
  by (cases G; cases b; cases G'; cases b') auto

lemma fshape_famap: "fshape (famap f a) = fshape a"
  by (cases a) auto

lemma hidden_nodes64_same_outcome:
  assumes "fshape X = shape X'" "fshape W = shape W'" "fshape b = shape b'"
  shows "case hidden_nodes64 X W b of
           Inl e \<Rightarrow> hidden_nodes_value X' W' b' = Inl e
         | Inr a \<Rightarrow> (\<exists>a'. hidden_nodes_value X' W' b' = Inr a' \<and> shape a' = fshape a)"
proof (cases "dot64 X W")
  case (Inl e)
  with dot64_shape [OF assms(1,2)] show ?thesis
    by (simp add: hidden_nodes64_def hidden_nodes_value_def)
next
  case (Inr G)
  with dot64_shape [OF assms(1,2)] obtain G' where G': "dot X' W' = Inr G'" "shape G' = fshape G"
    by auto
  show ?thesis
  proof (cases "add64 G b")
    case (Inl e)
    with add64_shape [OF G'(2) [symmetric] assms(3)] Inr G' show ?thesis
      by (simp add: hidden_nodes64_def hidden_nodes_value_def)
  next
    case (Inr G2)
    with add64_shape [OF G'(2) [symmetric] assms(3)] obtain G2' where "add G' b' = Inr G2'" "shape G2' = fshape G2"
      by auto
    with Inr \<open>dot64 X W = Inr G\<close> G' show ?thesis
      by (simp add: hidden_nodes64_def hidden_nodes_value_def relu64_def maximum64_def
          fshape_famap shape_amap)
  qed
qed

lemma overflow_shapes:
  "fshape overflow_X = [1, 32]" "fshape overflow_W = [32, 1]" "fshape overflow_b = [1]"
  by (simp_all add: overflow_X_def overflow_W_def overflow_b_def)

subsection \<open>The rectifier\<close>

text \<open>
  Claim C10. For every array \<open>x\<close>, \<^verbatim>\<open>relu(x)\<close> returns the reference it was given, and
  after the call the array at that reference holds the elementwise maximum of its
  former entries and 0, with the same shape: the argument is overwritten in place,
  nothing is allocated and no other array changes.
\<close>

theorem relu_in_place:
  "relu x s = (Inr x, s\<lparr>heap := (heap s)(x := amap (\<lambda>v. max v 0) (heap s x))\<rparr>) \<and>
   shape (heap (snd (relu x s)) x) = shape (heap s x) \<and>
   entries (heap (snd (relu x s)) x) = map (\<lambda>v. max v 0) (entries (heap s x))"
  by (simp add: relu_eq shape_amap entries_amap)

subsection \<open>The projection\<close>

text \<open>
  In the store model, where entries are real numbers and nothing is rounded: for
  every input array \<open>X\<close> with rows of \<open>m\<close> entries, \<^verbatim>\<open>hidden_nodes(X)\<close> returns a new
  array whose entry \<open>(i, j)\<close> is \<open>max(\<Sum>k. X[i,k] * W_in[k,j] + b[j], 0)\<close>, with as many
  rows as \<open>X\<close> and \<open>h\<close> columns.
\<close>

lemma hidden_nodes_real_projection:
  assumes "model_inv m h s"
    and "heap s X = Arr2 m Xr" and "wf_array (Arr2 m Xr)"
    and "heap s (input_weights s) = Arr2 h W" and "heap s (biases s) = Arr1 b"
  shows "\<exists>H s'. hidden_nodes X s = (Inr H, s') \<and>
           heap s' H = Arr2 h (spec_project m h Xr W b) \<and>
           shape (heap s' H) = [length Xr, h] \<and>
           wf_array (heap s' H)"
proof -
  from assms(1,4,5) have len: "length W = m" "length b = h" and bs: "biases s < nxt s"
    by (simp_all add: model_inv_def)
  have "result_value (hidden_nodes X s) = Inr (Arr2 h (spec_project m h Xr W b))"
    using hidden_nodes_result [OF bs, of X] hidden_nodes_value_spec [OF assms(3) len] assms(2,4,5)
    by simp
  then obtain H s' where run: "hidden_nodes X s = (Inr H, s')"
    and val: "heap s' H = Arr2 h (spec_project m h Xr W b)"
    using result_value_InrD by blast
  have "wf_array (heap s' H)"
    using wf_spec_project [of h m Xr W b] val by simp
  then show ?thesis
    using run val by (simp add: length_spec_project)
qed

lemma hidden_nodes_demo:
  "result_value (hidden_nodes 2 demo) = Inr (Arr2 1 [[3 / 2], [0]])"
  by (simp add: hidden_nodes_def py_simps result_value_def demo_fields demo_heap matmul_def upt_rec)

text \<open>
  Claim C1, as amended. For every float64 input \<open>X\<close> with rows of \<open>m\<close> entries,
  weights of shape \<open>(m, h)\<close> and biases of shape \<open>(h,)\<close>, \<^verbatim>\<open>hidden_nodes(X)\<close> returns the
  array obtained by applying the rectifier \<open>max(value, 0)\<close> to every entry of
  \<open>X\<cdot>W_in + b\<close>; it has as many rows as \<open>X\<close> and \<open>h\<close> columns, and every entry of it is
  NaN or not negative: NaN where the entry of \<open>X\<cdot>W_in + b\<close> is NaN, not negative
  everywhere else.
\<close>

theorem hidden_nodes64_rectified_projection:
  assumes "\<forall>r \<in> set X. length r = m" and "length W = m" and "length b = h"
  shows "hidden_nodes64 (FArr2 m X) (FArr2 h W) (FArr1 b) = Inr (FArr2 h (spec_project64 m h X W b)) \<and>
         fshape (FArr2 h (spec_project64 m h X W b)) = [length X, h] \<and>
         (\<forall>r \<in> set (spec_project64 m h X W b). length r = h) \<and>
         (\<forall>v \<in> set (concat (spec_project64 m h X W b)). v = NaN \<or> ge0 v) \<and>
         (\<forall>i<length X. \<forall>j<h.
            spec_project64 m h X W b ! i ! j = fmaximum (pre64 m X W b i j) (Fin 0) \<and>
            (pre64 m X W b i j = NaN \<longrightarrow> spec_project64 m h X W b ! i ! j = NaN) \<and>
            (pre64 m X W b i j \<noteq> NaN \<longrightarrow> ge0 (spec_project64 m h X W b ! i ! j)))"
proof (intro conjI)
  show "hidden_nodes64 (FArr2 m X) (FArr2 h W) (FArr1 b) = Inr (FArr2 h (spec_project64 m h X W b))"
    using assms by (rule hidden_nodes64_spec)
  show "fshape (FArr2 h (spec_project64 m h X W b)) = [length X, h]"
    by (simp add: spec_project64_def)
  show "\<forall>r \<in> set (spec_project64 m h X W b). length r = h"
    by (auto simp: spec_project64_def)
  show "\<forall>v \<in> set (concat (spec_project64 m h X W b)). v = NaN \<or> ge0 v"
    by (auto simp: spec_project64_def fmaximum_cases)
  show "\<forall>i<length X. \<forall>j<h.
            spec_project64 m h X W b ! i ! j = fmaximum (pre64 m X W b i j) (Fin 0) \<and>
            (pre64 m X W b i j = NaN \<longrightarrow> spec_project64 m h X W b ! i ! j = NaN) \<and>
            (pre64 m X W b i j \<noteq> NaN \<longrightarrow> ge0 (spec_project64 m h X W b ! i ! j))"
    by (simp add: spec_project64_def fmaximum_NaN fmaximum_ge0)
qed

theorem hidden_nodes64_rectified_projection_witness:
  "length [Fin (2 ^ 53)] = 1 \<and> length [[Fin 1]] = 1 \<and> length [Fin 1] = 1 \<and>
   hidden_nodes64 (FArr2 1 [[Fin (2 ^ 53)]]) (FArr2 1 [[Fin 1]]) (FArr1 [Fin 1]) =
     Inr (FArr2 1 (spec_project64 1 1 [[Fin (2 ^ 53)]] [[Fin 1]] [Fin 1])) \<and>
   fshape (FArr2 1 (spec_project64 1 1 [[Fin (2 ^ 53)]] [[Fin 1]] [Fin 1])) = [length [[Fin (2 ^ 53)]], 1] \<and>
   spec_project64 1 1 [[Fin (2 ^ 53)]] [[Fin 1]] [Fin 1] = [[Fin (2 ^ 53)]] \<and>
   pre64 1 [[Fin (2 ^ 53)]] [[Fin 1]] [Fin 1] 0 0 \<noteq> NaN \<and>
   ge0 (spec_project64 1 1 [[Fin (2 ^ 53)]] [[Fin 1]] [Fin 1] ! 0 ! 0)"
proof -
  have h0: "length [Fin (2 ^ 53)] = 1" by simp
  have h1: "\<forall>r \<in> set [[Fin (2 ^ 53)]]. length r = 1" by simp
  have h2: "length [[Fin 1]] = 1" by simp
  have h3: "length [Fin 1] = 1" by simp
  note t = hidden_nodes64_rectified_projection [OF h1 h2 h3]
  have v: "spec_project64 1 1 [[Fin (2 ^ 53)]] [[Fin 1]] [Fin 1] = [[Fin (2 ^ 53)]]"
    using conjunct1 [OF t] hidden_nodes64_rounding by simp
  have idx: "spec_project64 1 1 [[Fin (2 ^ 53)]] [[Fin 1]] [Fin 1] ! 0 ! 0 =
        fmaximum (pre64 1 [[Fin (2 ^ 53)]] [[Fin 1]] [Fin 1] 0 0) (Fin 0) \<and>
      (pre64 1 [[Fin (2 ^ 53)]] [[Fin 1]] [Fin 1] 0 0 = NaN \<longrightarrow>
         spec_project64 1 1 [[Fin (2 ^ 53)]] [[Fin 1]] [Fin 1] ! 0 ! 0 = NaN) \<and>
      (pre64 1 [[Fin (2 ^ 53)]] [[Fin 1]] [Fin 1] 0 0 \<noteq> NaN \<longrightarrow>
         ge0 (spec_project64 1 1 [[Fin (2 ^ 53)]] [[Fin 1]] [Fin 1] ! 0 ! 0))"
  proof -
    have i: "(0::nat) < length [[Fin (2 ^ 53)]]" and j: "(0::nat) < 1" by simp_all
    from conjunct2 [OF conjunct2 [OF conjunct2 [OF conjunct2 [OF t]]]] i j
    show ?thesis by blast
  qed
  have n: "pre64 1 [[Fin (2 ^ 53)]] [[Fin 1]] [Fin 1] 0 0 \<noteq> NaN"
  proof
    assume "pre64 1 [[Fin (2 ^ 53)]] [[Fin 1]] [Fin 1] 0 0 = NaN"
    with idx have "spec_project64 1 1 [[Fin (2 ^ 53)]] [[Fin 1]] [Fin 1] ! 0 ! 0 = NaN" by blast
    with v show False by simp
  qed
  with idx have g: "ge0 (spec_project64 1 1 [[Fin (2 ^ 53)]] [[Fin 1]] [Fin 1] ! 0 ! 0)" by blast
  show ?thesis
    by (intro conjI h0 h2 h3 v n g conjunct1 [OF t] conjunct1 [OF conjunct2 [OF t]])
qed

text \<open>
  The entries need not all be \<open>\<ge> 0\<close>: on the finite input above every product
  overflows, to \<open>+inf\<close> and \<open>-inf\<close> in turn, their sum is NaN, and the rectifier
  returns NaN.
\<close>

theorem hidden_nodes64_overflow_counterexample:
  "fshape overflow_X = [1, 32] \<and> fshape overflow_W = [32, 1] \<and> fshape overflow_b = [1] \<and>
   hidden_nodes64 overflow_X overflow_W overflow_b = Inr (FArr2 1 [[NaN]]) \<and> \<not> ge0 NaN"
  using hidden_nodes64_overflow not_ge0_NaN overflow_shapes by blast

subsection \<open>The output weights\<close>



subsection \<open>Prediction\<close>

text \<open>
  Claim C3. In a fitted model with \<open>m\<close> features and \<open>h\<close> hidden nodes whose output
  weights have shape \<open>(h, c)\<close>, for every input \<open>X\<close> with rows of \<open>m\<close> entries
  \<^verbatim>\<open>predict(X)\<close> returns the product of the projection of \<open>X\<close> and the output weights,
  an array with as many rows as \<open>X\<close> and \<open>c\<close> columns. The result is a function of the
  arrays \<open>X\<close>, \<^verbatim>\<open>input_weights\<close>, \<^verbatim>\<open>biases\<close> and \<^verbatim>\<open>output_weights\<close> as they are when
  the call is made; the call leaves every existing array and every global name as
  it was.
\<close>

theorem predict_projection_times_output_weights:
  assumes "model_inv m h s"
    and "heap s X = Arr2 m Xr" and "wf_array (Arr2 m Xr)"
    and "heap s (input_weights s) = Arr2 h W" and "heap s (biases s) = Arr1 b"
    and "output_weights s = Some Wo" and "heap s Wo = Arr2 c Wr" and "length Wr = h"
  shows "\<exists>out s'. predict X s = (Inr out, s') \<and>
           heap s' out = Arr2 c (spec_dot h c (spec_project m h Xr W b) Wr) \<and>
           shape (heap s' out) = [length Xr, c] \<and>
           Inr (heap s' out) = predict_value (heap s X) (heap s (input_weights s)) (heap s (biases s)) (Some (heap s Wo)) \<and>
           frame s s' \<and> output_weights s' = output_weights s"
proof -
  from assms(1,4,5,6) have len: "length W = m" "length b = h" and bs: "biases s < nxt s"
    and ow: "case output_weights s of None \<Rightarrow> True | Some W \<Rightarrow> W < nxt s"
    by (simp_all add: model_inv_def)
  have hv: "hidden_nodes_value (Arr2 m Xr) (Arr2 h W) (Arr1 b) = Inr (Arr2 h (spec_project m h Xr W b))"
    by (rule hidden_nodes_value_spec [OF assms(3) len])
  have d: "dot (Arr2 h (spec_project m h Xr W b)) (Arr2 c Wr) =
      Inr (Arr2 c (spec_dot h c (spec_project m h Xr W b) Wr))"
    using wf_spec_project [of h m Xr W b] assms(8) by (intro dot_spec) simp_all
  have pv: "predict_value (heap s X) (heap s (input_weights s)) (heap s (biases s)) (Some (heap s Wo)) =
      Inr (Arr2 c (spec_dot h c (spec_project m h Xr W b) Wr))"
    using hv d assms(2,4,5,7) by (simp add: predict_value_def del: dot.simps)
  have "result_value (predict X s) = Inr (Arr2 c (spec_dot h c (spec_project m h Xr W b) Wr))"
    using predict_result [OF bs ow, of X] pv assms(6) by simp
  then obtain out s' where run: "predict X s = (Inr out, s')"
    and val: "heap s' out = Arr2 c (spec_dot h c (spec_project m h Xr W b) Wr)"
    using result_value_InrD by blast
  from predict_frame [OF run] have "frame s s' \<and> output_weights s' = output_weights s" .
  then show ?thesis
    using run val pv by (simp add: length_spec_dot length_spec_project)
qed

theorem predict_projection_times_output_weights_witness:
  "model_inv 2 1 demo_fitted \<and>
   heap demo_fitted 4 = Arr2 2 [[2, 0]] \<and> wf_array (Arr2 2 [[2, 0]]) \<and>
   heap demo_fitted (input_weights demo_fitted) = Arr2 1 [[1], [- 1]] \<and>
   heap demo_fitted (biases demo_fitted) = Arr1 [1 / 2] \<and>
   output_weights demo_fitted = Some 11 \<and> heap demo_fitted 11 = Arr2 2 [[2 / 3, 0]] \<and>
   length [[2 / 3, 0 :: real]] = 1 \<and>
   (\<exists>out s'. predict 4 demo_fitted = (Inr out, s') \<and>
           heap s' out = Arr2 2 (spec_dot 1 2 (spec_project 2 1 [[2, 0]] [[1], [- 1]] [1 / 2]) [[2 / 3, 0]]) \<and>
           shape (heap s' out) = [length [[2, 0 :: real]], 2] \<and>
           Inr (heap s' out) = predict_value (heap demo_fitted 4) (heap demo_fitted (input_weights demo_fitted))
              (heap demo_fitted (biases demo_fitted)) (Some (heap demo_fitted 11)) \<and>
           frame demo_fitted s' \<and> output_weights s' = output_weights demo_fitted)"
proof -
  have h2: "heap demo_fitted 4 = Arr2 2 [[2, 0]]" by (simp add: demo_fitted_heap)
  have h3: "wf_array (Arr2 2 [[2, 0]])" by simp
  have h4: "heap demo_fitted (input_weights demo_fitted) = Arr2 1 [[1], [- 1]]"
    by (simp add: demo_fitted_fields demo_fitted_heap)
  have h5: "heap demo_fitted (biases demo_fitted) = Arr1 [1 / 2]"
    by (simp add: demo_fitted_fields demo_fitted_heap)
  have h6: "output_weights demo_fitted = Some 11" by (simp add: demo_fitted_fields)
  have h7: "heap demo_fitted 11 = Arr2 2 [[2 / 3, 0]]" by (simp add: demo_fitted_heap)
  have h8: "length [[2 / 3, 0 :: real]] = 1" by simp
  from predict_projection_times_output_weights [OF model_inv_demo_fitted h2 h3 h4 h5 h6 h7 h8]
  show ?thesis using model_inv_demo_fitted h2 h3 h4 h5 h6 h7 h8 by blast
qed

text \<open>
  Claim C4, as amended. While \<^verbatim>\<open>output_weights\<close> has never been assigned,
  \<^verbatim>\<open>predict(X)\<close> fails: with NameError, the unfitted-model error of the program, when
  \<open>X\<close> has as many columns as the model has features, and with ValueError, raised
  by the projection before \<^verbatim>\<open>output_weights\<close> is read, when it has not.
\<close>

theorem predict_before_fit:
  assumes "output_weights s = None" and "model_inv m h s" and "heap s X = Arr2 m' Xr"
  shows "\<exists>s'. predict X s = (Inl (if m' = m then NameError else ValueError), s') \<and>
           frame s s' \<and> output_weights s' = None"
proof (cases "m' = m")
  case True
  then obtain H s1 where run: "hidden_nodes X s = (Inr H, s1)"
    using hidden_nodes_succeeds [OF assms(2)] assms(3) by blast
  from hidden_nodes_frame [OF run] assms(1)
  have f: "frame s s1" "output_weights s1 = None" by simp_all
  from run f(2) have "predict X s = (Inl NameError, s1)"
    by (simp add: predict_def py_simps)
  with f True show ?thesis by simp
next
  case False
  obtain W where "heap s (input_weights s) = Arr2 h W" "length W = m"
    using model_inv_weights [OF assms(2)] by blast
  with False assms(3) have "predict X s = (Inl ValueError, s)"
    using predict_mismatch [of s X m' Xr h W] by simp
  with False assms(1) show ?thesis by (simp add: frame_def)
qed

theorem predict_before_fit_witness:
  "output_weights demo = None \<and> model_inv 2 1 demo \<and> heap demo 4 = Arr2 2 [[2, 0]] \<and>
   (\<exists>s'. predict 4 demo = (Inl (if (2::nat) = 2 then NameError else ValueError), s') \<and>
           frame demo s' \<and> output_weights s' = None)"
proof -
  have h1: "output_weights demo = None" by (simp add: demo_fields)
  have h3: "heap demo 4 = Arr2 2 [[2, 0]]" by (simp add: demo_heap)
  from predict_before_fit [OF h1 model_inv_demo h3]
  show ?thesis using h1 model_inv_demo h3 by blast
qed

theorem predict_before_fit_counterexample:
  "output_weights demo = None \<and> predict 5 demo = (Inl ValueError, demo)"
  by (simp add: predict_def hidden_nodes_def py_simps demo_fields demo_heap)

subsection \<open>Shape errors\<close>

text \<open>
  Claim C5. If the column count of \<open>X\<close> differs from the number of features, both
  \<^verbatim>\<open>hidden_nodes(X)\<close> and \<^verbatim>\<open>predict(X)\<close> raise ValueError and leave the state as it
  was. If \<open>H\<close> and \<open>Y\<close> differ in their row count and \<^verbatim>\<open>pinv2\<close> returns for \<open>H\<close> an array
  with as many columns as \<open>H\<close> has rows, the solve step raises ValueError; no
  existing array changes and \<^verbatim>\<open>output_weights\<close> keeps its binding.
\<close>

theorem shape_mismatch_raises_ValueError:
  "(model_inv m h s \<and> heap s X = Arr2 m' Xr \<and> m' \<noteq> m \<longrightarrow>
      hidden_nodes X s = (Inl ValueError, s) \<and> predict X s = (Inl ValueError, s)) \<and>
   (heap s H = Arr2 h Hr \<and> heap s Y = Arr2 c Yr \<and> length Yr \<noteq> length Hr \<and> Y < nxt s \<and>
    pinv (heap s H) = Inr (Arr2 (length Hr) P) \<longrightarrow>
      (\<exists>s'. solve pinv H Y s = (Inl ValueError, s') \<and> frame s s' \<and>
            output_weights s' = output_weights s))"
proof (intro conjI impI)
  assume a: "model_inv m h s \<and> heap s X = Arr2 m' Xr \<and> m' \<noteq> m"
  then obtain W where w: "heap s (input_weights s) = Arr2 h W" "length W = m"
    using model_inv_weights by blast
  with a show "hidden_nodes X s = (Inl ValueError, s)"
    using hidden_nodes_mismatch [of s X m' Xr h W] by simp
  from w a show "predict X s = (Inl ValueError, s)"
    using predict_mismatch [of s X m' Xr h W] by simp
next
  assume a: "heap s H = Arr2 h Hr \<and> heap s Y = Arr2 c Yr \<and> length Yr \<noteq> length Hr \<and> Y < nxt s \<and>
    pinv (heap s H) = Inr (Arr2 (length Hr) P)"
  then have y: "Y < nxt s" and p: "pinv (heap s H) = Inr (Arr2 (length Hr) P)" by blast+
  have "solve pinv H Y s =
      (Inl ValueError, s\<lparr>heap := (heap s)(nxt s := Arr2 (length Hr) P), nxt := Suc (nxt s)\<rparr>)"
    using solve_run [where pinv = pinv and H = H, OF y p] a by simp
  then show "\<exists>s'. solve pinv H Y s = (Inl ValueError, s') \<and> frame s s' \<and>
            output_weights s' = output_weights s"
    by (simp add: frame_def)
qed

theorem shape_mismatch_raises_ValueError_witness:
  "(model_inv 2 1 demo_hidden \<and> heap demo_hidden 5 = Arr2 3 [[1, 2, 3]] \<and> (3::nat) \<noteq> 2) \<and>
   (hidden_nodes 5 demo_hidden = (Inl ValueError, demo_hidden) \<and>
    predict 5 demo_hidden = (Inl ValueError, demo_hidden)) \<and>
   (heap demo_hidden 9 = Arr2 1 [[3 / 2], [0]] \<and> heap demo_hidden 4 = Arr2 2 [[2, 0]] \<and>
    length [[2, 0 :: real]] \<noteq> length [[3 / 2], [0 :: real]] \<and> 4 < nxt demo_hidden \<and>
    pinv_column (heap demo_hidden 9) = Inr (Arr2 (length [[3 / 2], [0 :: real]]) [[2 / 3, 0]])) \<and>
   (\<exists>s'. solve pinv_column 9 4 demo_hidden = (Inl ValueError, s') \<and> frame demo_hidden s' \<and>
          output_weights s' = output_weights demo_hidden)"
proof -
  have a: "model_inv 2 1 demo_hidden \<and> heap demo_hidden 5 = Arr2 3 [[1, 2, 3]] \<and> (3::nat) \<noteq> 2"
    using model_inv_demo_hidden by (simp add: demo_hidden_heap)
  have b: "heap demo_hidden 9 = Arr2 1 [[3 / 2], [0]] \<and> heap demo_hidden 4 = Arr2 2 [[2, 0]] \<and>
    length [[2, 0 :: real]] \<noteq> length [[3 / 2], [0 :: real]] \<and> 4 < nxt demo_hidden \<and>
    pinv_column (heap demo_hidden 9) = Inr (Arr2 (length [[3 / 2], [0 :: real]]) [[2 / 3, 0]])"
    by (simp add: demo_hidden_heap demo_hidden_fields pinv_column_def power2_eq_square)
  from shape_mismatch_raises_ValueError [where pinv = pinv_column and s = demo_hidden and X = 5
      and m = 2 and h = 1 and m' = 3 and Xr = "[[1, 2, 3]]" and H = 9 and Hr = "[[3 / 2], [0]]"
      and Y = 4 and c = 2 and Yr = "[[2, 0]]" and P = "[[2 / 3, 0]]"]
  show ?thesis using a b by blast
qed

subsection \<open>Fitting again\<close>

text \<open>
  Claim C6. Take a model, fit it on some data \<open>(Xa, Ya)\<close> and then on data \<open>(Xb, Yb)\<close>.
  The second fit binds \<^verbatim>\<open>output_weights\<close> to a new array, and that array is the one a
  single fit on \<open>(Xb, Yb)\<close> alone produces from the same parameters; every later
  \<^verbatim>\<open>predict(X)\<close> gives the same outcome as in the model fitted on \<open>(Xb, Yb)\<close> alone.
  Nothing of the first fit is left in the output weights or in the predictions.
\<close>

theorem refit_replaces_output_weights:
  assumes "model_inv m h s" and "Xb < nxt s" and "Yb < nxt s" and "X < nxt s"
    and "fit pinv Xa Ya s = (Inr (), sa)" and "fit pinv Xb Yb sa = (Inr (), sb)"
  shows "\<exists>t W W'. fit pinv Xb Yb s = (Inr (), t) \<and>
           output_weights sb = Some W \<and> output_weights t = Some W' \<and> nxt sa \<le> W \<and>
           heap sb W = heap t W' \<and>
           Inr (heap sb W) = fit_value pinv (heap s Xb) (heap s Yb)
                               (heap s (input_weights s)) (heap s (biases s)) \<and>
           result_value (predict X sb) = result_value (predict X t)"
proof -
  from assms(1) have v0: "input_weights s < nxt s" "biases s < nxt s"
    by (simp_all add: model_inv_def)
  have f01: "frame s sa" using assms(5) by (rule fit_frame)
  have f12: "frame sa sb" using assms(6) by (rule fit_frame)
  have f02: "frame s sb" using f01 f12 by (rule frame_trans)
  note p1 = frame_parameters [OF f01 v0]
  note p2 = frame_parameters [OF f02 v0]
  have y1: "Yb < nxt sa" using f01 assms(3) by (simp add: frame_def)
  have a1: "heap sa Xb = heap s Xb" "heap sa Yb = heap s Yb"
    using f01 assms(2,3) by (simp_all add: frame_def)
  from fit_result [OF p1(4) y1 assms(6)]
  obtain W where W: "output_weights sb = Some W" "nxt sa \<le> W" "W < nxt sb"
    and WV: "fit_value pinv (heap s Xb) (heap s Yb) (heap s (input_weights s)) (heap s (biases s))
              = Inr (heap sb W)"
    using a1 p1(1,2) by auto
  obtain r t where ft: "fit pinv Xb Yb s = (r, t)" by (cases "fit pinv Xb Yb s")
  from fit_result [OF v0(2) assms(3) ft] WV
  obtain W' where r: "r = Inr ()" and W': "output_weights t = Some W'" "W' < nxt t"
    and WV': "heap t W' = heap sb W"
    by (cases r) auto
  have f0t: "frame s t" using ft by (rule fit_frame)
  note pt = frame_parameters [OF f0t v0]
  have x2: "heap sb X = heap s X" using f02 assms(4) by (rule frame_heap)
  have xt: "heap t X = heap s X" using f0t assms(4) by (rule frame_heap)
  have "result_value (predict X sb) =
      predict_value (heap s X) (heap s (input_weights s)) (heap s (biases s)) (Some (heap sb W))"
    using predict_result [OF p2(4), of X] W p2(1,2) x2 by simp
  moreover have "result_value (predict X t) =
      predict_value (heap s X) (heap s (input_weights s)) (heap s (biases s)) (Some (heap t W'))"
    using predict_result [OF pt(4), of X] W' pt(1,2) xt by simp
  ultimately have "result_value (predict X sb) = result_value (predict X t)"
    using WV' by simp
  then show ?thesis using ft r W W' WV WV' by simp
qed

theorem refit_replaces_output_weights_witness:
  "model_inv 2 1 demo \<and> 2 < nxt demo \<and> 3 < nxt demo \<and> 4 < nxt demo \<and>
   fit pinv_column 4 4 demo = (Inr (), demo_first) \<and>
   fit pinv_column 2 3 demo_first = (Inr (), demo_refit) \<and>
   (\<exists>t W W'. fit pinv_column 2 3 demo = (Inr (), t) \<and>
           output_weights demo_refit = Some W \<and> output_weights t = Some W' \<and> nxt demo_first \<le> W \<and>
           heap demo_refit W = heap t W' \<and>
           Inr (heap demo_refit W) = fit_value pinv_column (heap demo 2) (heap demo 3)
                               (heap demo (input_weights demo)) (heap demo (biases demo)) \<and>
           result_value (predict 4 demo_refit) = result_value (predict 4 t))"
proof -
  have h2: "2 < nxt demo" and h3: "3 < nxt demo" and h4: "4 < nxt demo"
    by (simp_all add: demo_fields)
  have h5: "fit pinv_column 4 4 demo = (Inr (), demo_first)"
    by (simp add: demo_first_def fit_demo_first_run)
  have h6: "fit pinv_column 2 3 demo_first = (Inr (), demo_refit)"
    by (simp add: demo_refit_def fit_demo_refit_run)
  from refit_replaces_output_weights [OF model_inv_demo h2 h3 h4 h5 h6]
  show ?thesis using model_inv_demo h2 h3 h4 h5 h6 by blast
qed

subsection \<open>The parameters are never written\<close>

text \<open>
  Claim C7. In a model with its parameters in place, none of \<^verbatim>\<open>hidden_nodes\<close>,
  \<^verbatim>\<open>predict\<close>, the solve step and the whole assignment of cell 9 changes which
  arrays \<^verbatim>\<open>input_weights\<close> and \<^verbatim>\<open>biases\<close> name or what these arrays hold, whether
  the call returns or raises, and the model invariant is kept. \<^verbatim>\<open>hidden_nodes\<close> and
  \<^verbatim>\<open>predict\<close> leave \<^verbatim>\<open>output_weights\<close> and its array as they were too, and so do a
  solve step and an assignment that raise.
\<close>

theorem parameters_never_mutated:
  assumes "model_inv m h s"
  shows "same_model s (snd (hidden_nodes X s)) \<and> model_inv m h (snd (hidden_nodes X s)) \<and>
         same_model s (snd (predict X' s)) \<and> model_inv m h (snd (predict X' s)) \<and>
         same_parameters s (snd (solve pinv H Y s)) \<and> model_inv m h (snd (solve pinv H Y s)) \<and>
         same_parameters s (snd (fit pinv Xt Yt s)) \<and> model_inv m h (snd (fit pinv Xt Yt s)) \<and>
         (\<forall>e. fst (solve pinv H Y s) = Inl e \<longrightarrow> same_model s (snd (solve pinv H Y s))) \<and>
         (\<forall>e. fst (fit pinv Xt Yt s) = Inl e \<longrightarrow> same_model s (snd (fit pinv Xt Yt s)))"
proof -
  from assms have v: "input_weights s < nxt s" "biases s < nxt s" by (simp_all add: model_inv_def)
  obtain r1 s1 where h: "hidden_nodes X s = (r1, s1)" by (cases "hidden_nodes X s")
  obtain r2 s2 where p: "predict X' s = (r2, s2)" by (cases "predict X' s")
  obtain r3 s3 where sv: "solve pinv H Y s = (r3, s3)" by (cases "solve pinv H Y s")
  obtain r4 s4 where f: "fit pinv Xt Yt s = (r4, s4)" by (cases "fit pinv Xt Yt s")
  from hidden_nodes_frame [OF h] have h': "frame s s1" "output_weights s1 = output_weights s" by simp_all
  from predict_frame [OF p] have p': "frame s s2" "output_weights s2 = output_weights s" by simp_all
  from solve_frame [OF sv] have sv': "frame s s3" .
  from fit_frame [OF f] have f': "frame s s4" .
  have c1: "same_model s s1" "model_inv m h s1"
    using h' assms frame_same_model frame_model_inv by blast+
  have c2: "same_model s s2" "model_inv m h s2"
    using p' assms frame_same_model frame_model_inv by blast+
  have c3: "same_parameters s s3" "model_inv m h s3"
    using sv' v assms frame_same_parameters frame_model_inv [OF sv' assms] solve_output_weights [OF sv]
    by blast+
  have c4: "same_parameters s s4" "model_inv m h s4"
    using f' v assms frame_same_parameters frame_model_inv [OF f' assms] fit_output_weights [OF f]
    by blast+
  have c5: "\<forall>e. r3 = Inl e \<longrightarrow> same_model s s3"
    using sv solve_fail frame_same_model [OF sv' assms] by blast
  have c6: "\<forall>e. r4 = Inl e \<longrightarrow> same_model s s4"
    using f fit_fail frame_same_model [OF f' assms] by blast
  show ?thesis using c1 c2 c3 c4 c5 c6 by (simp add: h p sv f)
qed

theorem parameters_never_mutated_witness:
  "model_inv 2 1 demo_fitted \<and>
   fst (solve pinv_column 9 4 demo_fitted) = Inl ValueError \<and>
   fst (fit pinv_column 5 3 demo_fitted) = Inl ValueError \<and>
   same_model demo_fitted (snd (hidden_nodes 5 demo_fitted)) \<and>
   same_model demo_fitted (snd (predict 4 demo_fitted)) \<and>
   same_parameters demo_fitted (snd (fit pinv_column 2 3 demo_fitted)) \<and>
   same_model demo_fitted (snd (solve pinv_column 9 4 demo_fitted)) \<and>
   same_model demo_fitted (snd (fit pinv_column 5 3 demo_fitted))"
proof -
  note a = parameters_never_mutated [OF model_inv_demo_fitted, where pinv = pinv_column and X = 5
      and X' = 4 and H = 9 and Y = 4 and Xt = 5 and Yt = 3]
  note b = parameters_never_mutated [OF model_inv_demo_fitted, where pinv = pinv_column and Xt = 2
      and Yt = 3]
  show ?thesis
    using a b model_inv_demo_fitted solve_demo_fitted_fails fit_demo_fitted_fails by blast
qed

subsection \<open>The projection is a function of its inputs\<close>

text \<open>
  Claim C8. The outcome of \<^verbatim>\<open>hidden_nodes(X)\<close>, the array returned or the exception,
  is determined by the contents of \<open>X\<close>, \<^verbatim>\<open>input_weights\<close> and \<^verbatim>\<open>biases\<close>: two calls in
  states that agree on these three arrays have the same outcome, and so has a
  second call made right after the first. The call changes no array that existed
  before it, \<open>X\<close> included, and rebinds no global name; the arrays \<^verbatim>\<open>relu\<close> writes
  to are the ones the call itself allocated.
\<close>

theorem hidden_nodes_deterministic:
  assumes "input_weights s < nxt s" and "biases s < nxt s" and "X < nxt s"
    and "biases t < nxt t"
    and "heap t X' = heap s X"
    and "heap t (input_weights t) = heap s (input_weights s)"
    and "heap t (biases t) = heap s (biases s)"
  shows "result_value (hidden_nodes X' t) = result_value (hidden_nodes X s) \<and>
         result_value (hidden_nodes X (snd (hidden_nodes X s))) = result_value (hidden_nodes X s) \<and>
         frame s (snd (hidden_nodes X s)) \<and>
         heap (snd (hidden_nodes X s)) X = heap s X \<and>
         output_weights (snd (hidden_nodes X s)) = output_weights s"
proof -
  obtain r s1 where h: "hidden_nodes X s = (r, s1)" by (cases "hidden_nodes X s")
  from hidden_nodes_frame [OF h] have f: "frame s s1" and o: "output_weights s1 = output_weights s"
    by simp_all
  have x: "heap s1 X = heap s X" using f assms(3) by (rule frame_heap)
  have two: "result_value (hidden_nodes X' t) = result_value (hidden_nodes X s)"
    using hidden_nodes_result [OF assms(2), of X] hidden_nodes_result [OF assms(4), of X'] assms(5-7)
    by simp
  have again: "result_value (hidden_nodes X s1) = result_value (hidden_nodes X s)"
    using hidden_nodes_result [OF assms(2), of X]
      hidden_nodes_result [OF frame_parameters(4) [OF f assms(1,2)], of X]
      frame_parameters(1,2) [OF f assms(1,2)] x
    by simp
  show ?thesis using two again f x o by (simp add: h)
qed

theorem hidden_nodes_deterministic_witness:
  "input_weights demo < nxt demo \<and> biases demo < nxt demo \<and> 2 < nxt demo \<and>
   biases demo_fitted < nxt demo_fitted \<and>
   heap demo_fitted 3 = heap demo 2 \<and>
   heap demo_fitted (input_weights demo_fitted) = heap demo (input_weights demo) \<and>
   heap demo_fitted (biases demo_fitted) = heap demo (biases demo) \<and>
   result_value (hidden_nodes 3 demo_fitted) = result_value (hidden_nodes 2 demo) \<and>
   result_value (hidden_nodes 2 (snd (hidden_nodes 2 demo))) = result_value (hidden_nodes 2 demo) \<and>
   frame demo (snd (hidden_nodes 2 demo)) \<and>
   heap (snd (hidden_nodes 2 demo)) 2 = heap demo 2 \<and>
   output_weights (snd (hidden_nodes 2 demo)) = output_weights demo"
proof -
  have h1: "input_weights demo < nxt demo" by (simp add: demo_fields)
  have h2: "biases demo < nxt demo" by (simp add: demo_fields)
  have h3: "2 < nxt demo" by (simp add: demo_fields)
  have h4: "biases demo_fitted < nxt demo_fitted" by (simp add: demo_fitted_fields)
  have h5: "heap demo_fitted 3 = heap demo 2" by (simp add: demo_fitted_heap demo_heap)
  have h6: "heap demo_fitted (input_weights demo_fitted) = heap demo (input_weights demo)"
    by (simp add: demo_fitted_heap demo_heap demo_fitted_fields demo_fields)
  have h7: "heap demo_fitted (biases demo_fitted) = heap demo (biases demo)"
    by (simp add: demo_fitted_heap demo_heap demo_fitted_fields demo_fields)
  from hidden_nodes_deterministic [OF h1 h2 h3 h4 h5 h6 h7]
  show ?thesis using h1 h2 h3 h4 h5 h6 h7 by blast
qed

subsection \<open>Scaling the two splits\<close>

text \<open>
  Claim C9. When cell 3 succeeds, the scaled training features are the training
  features transformed with the column means and deviations of the training
  features, and the scaled test features are the test features transformed with
  the column means and deviations of the test features. The second
  \<^verbatim>\<open>fit_transform\<close> gives the same result whatever the scaler had learnt before, so
  the statistics of the training split play no part in the scaled test split.
\<close>

theorem scale_features_statistics_per_split:
  assumes "scale_features sc train test = Inr (X_train, X_test, sc')"
  shows "\<exists>c rs c' rs'.
           features train = Inr (Arr2 c rs) \<and> features test = Inr (Arr2 c' rs') \<and>
           X_train = Arr2 c (standardized c rs) \<and>
           X_test = Arr2 c' (standardized c' rs') \<and>
           (\<exists>mu sd. fit_stats (Arr2 c rs) = Inr (mu, sd) \<and>
                    transform (Some (mu, sd)) (Arr2 c rs) = Inr X_train) \<and>
           (\<exists>mu sd. fit_stats (Arr2 c' rs') = Inr (mu, sd) \<and>
                    transform (Some (mu, sd)) (Arr2 c' rs') = Inr X_test \<and> sc' = Some (mu, sd)) \<and>
           (\<forall>sc0. fit_transform sc0 (Arr2 c' rs') = Inr (X_test, sc'))"
proof -
  from assms obtain ftr fte sc1 where ftr: "features train = Inr ftr"
    and a: "fit_transform sc ftr = Inr (X_train, sc1)"
    and fte: "features test = Inr fte"
    and b: "fit_transform sc1 fte = Inr (X_test, sc')"
    by (auto simp: scale_features_def split: sum.splits)
  from fit_transform_standardized [OF a] obtain c rs
    where tr: "ftr = Arr2 c rs" "X_train = Arr2 c (standardized c rs)" by blast
  from fit_transform_standardized [OF b] obtain c' rs'
    where te: "fte = Arr2 c' rs'" "X_test = Arr2 c' (standardized c' rs')" by blast
  have "\<forall>sc0. fit_transform sc0 fte = Inr (X_test, sc')"
    using fit_transform_ignores_state [of _ fte sc1] b by simp
  with fit_transform_InrD [OF a] fit_transform_InrD [OF b] ftr fte tr te
  show ?thesis by auto
qed

theorem scale_features_statistics_per_split_witness:
  "scale_features None demo_train demo_test =
     Inr (Arr2 2 [[- 1, 0], [1, 0]], Arr2 2 [[- 1, - 1], [1, 1]], Some ([11, 6], [1, 1])) \<and>
   (\<exists>c rs c' rs'.
       features demo_train = Inr (Arr2 c rs) \<and> features demo_test = Inr (Arr2 c' rs') \<and>
       Arr2 2 [[- 1, 0], [1, 0]] = Arr2 c (standardized c rs) \<and>
       Arr2 2 [[- 1, - 1], [1, 1]] = Arr2 c' (standardized c' rs') \<and>
       (\<exists>mu sd. fit_stats (Arr2 c rs) = Inr (mu, sd) \<and>
                transform (Some (mu, sd)) (Arr2 c rs) = Inr (Arr2 2 [[- 1, 0], [1, 0]])) \<and>
       (\<exists>mu sd. fit_stats (Arr2 c' rs') = Inr (mu, sd) \<and>
                transform (Some (mu, sd)) (Arr2 c' rs') = Inr (Arr2 2 [[- 1, - 1], [1, 1]]) \<and>
                Some ([11, 6], [1, 1]) = Some (mu, sd)) \<and>
       (\<forall>sc0. fit_transform sc0 (Arr2 c' rs') =
                Inr (Arr2 2 [[- 1, - 1], [1, 1]], Some ([11, 6], [1, 1]))))"
  using scale_features_statistics_per_split [OF scale_features_demo] scale_features_demo by blast

end
